theory Spec2Isabelle
  imports Complex_Main
begin

section \<open>Retry with exponential backoff (utils/api-retry.js)\<close>

text \<open>
  The error objects that reach \<open>isRetryableError\<close> are read through four properties only:
  \<open>error.status\<close>, \<open>error.type\<close>, \<open>error.response?.status\<close> and \<open>error.code\<close>. A property
  that is absent (\<open>undefined\<close>) is \<open>None\<close>. The message identifies the error object.
  The retry count and the base delay are integers, as the specification types them, and the
  scores of the classifier are rationals; the numbers of the budget monitors are doubles,
  see there. A wait is the product \<open>baseDelayMs * Math.pow(2, attempt - 1)\<close>, which for
  integers is computed without rounding as long as it stays below \<open>2^53\<close>.
\<close>

record apiError =
  err_message :: string
  err_status :: "int option"
  err_type :: "string option"
  err_response_status :: "int option"
  err_code :: "string option"

definition networkCodes :: "string list" where
  "networkCodes = [''ECONNRESET'', ''ETIMEDOUT'', ''ECONNREFUSED'', ''ENOTFOUND'']"

definition isRetryableError :: "apiError \<Rightarrow> bool" where
  "isRetryableError error =
     (if err_status error = Some 429 \<or> err_status error = Some 529 then True
      else if err_type error = Some ''rate_limit_error'' \<or> err_type error = Some ''overloaded_error''
        then True
      else if err_response_status error = Some 429 \<or> err_response_status error = Some 503
        then True
      else (case err_code error of
              None \<Rightarrow> False
            | Some c \<Rightarrow> c \<noteq> [] \<and> c \<in> set networkCodes))"

text \<open>
  What \<open>withRetry\<close> does is observed as a trace: the timer waits it awaits and the calls
  of \<open>fn\<close> it makes, in order. The function \<open>fn\<close> is given by the result of its call at
  each attempt index (\<open>Inl\<close> a thrown error, \<open>Inr\<close> a returned value).
\<close>

datatype event = Delay int | Attempt nat

datatype 'a outcome = Returned 'a | Threw apiError | ThrewUndefined

record retryOptions =
  opt_maxRetries :: "int option"
  opt_baseDelayMs :: "int option"

definition backoffDelay :: "int \<Rightarrow> nat \<Rightarrow> event list" where
  "backoffDelay baseDelayMs attempt =
     (if attempt > 0 then [Delay (baseDelayMs * 2 ^ (attempt - 1))] else [])"

function withRetry_loop ::
  "(nat \<Rightarrow> apiError + 'a) \<Rightarrow> int \<Rightarrow> int \<Rightarrow> nat \<Rightarrow> apiError option \<Rightarrow> event list \<times> 'a outcome"
where
  "withRetry_loop fn maxRetries baseDelayMs attempt lastError =
     (if int attempt \<le> maxRetries then
        (case fn attempt of
           Inr v \<Rightarrow> (backoffDelay baseDelayMs attempt @ [Attempt attempt], Returned v)
         | Inl error \<Rightarrow>
             if \<not> isRetryableError error \<or> int attempt = maxRetries
             then (backoffDelay baseDelayMs attempt @ [Attempt attempt], Threw error)
             else (case withRetry_loop fn maxRetries baseDelayMs (Suc attempt) (Some error) of
                     (evs, res) \<Rightarrow> (backoffDelay baseDelayMs attempt @ [Attempt attempt] @ evs, res)))
      else ([], (case lastError of None \<Rightarrow> ThrewUndefined | Some e \<Rightarrow> Threw e)))"
  by pat_completeness auto
termination
  by (relation "measure (\<lambda>(fn, maxRetries, baseDelayMs, attempt, lastError).
        nat (maxRetries + 1 - int attempt))") auto

declare withRetry_loop.simps [simp del]

text \<open>The defaults of the options parameter: \<open>{ maxRetries = 3, baseDelayMs = 1000 } = {}\<close>.\<close>

definition maxRetriesOf :: "retryOptions \<Rightarrow> int" where
  "maxRetriesOf opts = (case opt_maxRetries opts of None \<Rightarrow> 3 | Some m \<Rightarrow> m)"

definition baseDelayMsOf :: "retryOptions \<Rightarrow> int" where
  "baseDelayMsOf opts = (case opt_baseDelayMs opts of None \<Rightarrow> 1000 | Some b \<Rightarrow> b)"

definition defaultOptions :: retryOptions where
  "defaultOptions = \<lparr>opt_maxRetries = None, opt_baseDelayMs = None\<rparr>"

definition withRetry :: "(nat \<Rightarrow> apiError + 'a) \<Rightarrow> retryOptions \<Rightarrow> event list \<times> 'a outcome" where
  "withRetry fn opts = withRetry_loop fn (maxRetriesOf opts) (baseDelayMsOf opts) 0 None"

definition delays :: "event list \<Rightarrow> int list" where
  "delays evs = concat (map (\<lambda>e. case e of Delay d \<Rightarrow> [d] | Attempt _ \<Rightarrow> []) evs)"

definition attempts :: "event list \<Rightarrow> nat list" where
  "attempts evs = concat (map (\<lambda>e. case e of Delay _ \<Rightarrow> [] | Attempt i \<Rightarrow> [i]) evs)"

text \<open>
  The schedule of a run that makes the attempts \<open>0..k\<close>: attempt 0 at once, every later
  attempt \<open>i\<close> right after a wait of \<open>baseDelayMs * 2^(i-1)\<close>.
\<close>

fun schedule :: "int \<Rightarrow> nat \<Rightarrow> event list" where
  "schedule baseDelayMs 0 = [Attempt 0]"
| "schedule baseDelayMs (Suc k) =
     schedule baseDelayMs k @ [Delay (baseDelayMs * 2 ^ k), Attempt (Suc k)]"

text \<open>The events of the attempts \<open>a..k\<close>, as the loop body produces them.\<close>

definition attemptEvents :: "int \<Rightarrow> nat \<Rightarrow> nat \<Rightarrow> event list" where
  "attemptEvents baseDelayMs a k =
     concat (map (\<lambda>i. backoffDelay baseDelayMs i @ [Attempt i]) [a..<Suc k])"

text \<open>
  What attempt \<open>k\<close> of \<open>fn\<close> gives, whether it ends the loop, and whether it is a failure
  that the loop retries.
\<close>

definition resultAt :: "(nat \<Rightarrow> apiError + 'a) \<Rightarrow> nat \<Rightarrow> 'a outcome" where
  "resultAt fn k = (case fn k of Inr v \<Rightarrow> Returned v | Inl e \<Rightarrow> Threw e)"

definition stopsAt :: "(nat \<Rightarrow> apiError + 'a) \<Rightarrow> int \<Rightarrow> nat \<Rightarrow> bool" where
  "stopsAt fn maxRetries k =
     (case fn k of Inr v \<Rightarrow> True | Inl e \<Rightarrow> \<not> isRetryableError e \<or> int k = maxRetries)"

definition retryableFailure :: "(nat \<Rightarrow> apiError + 'a) \<Rightarrow> nat \<Rightarrow> bool" where
  "retryableFailure fn j = (case fn j of Inr v \<Rightarrow> False | Inl e \<Rightarrow> isRetryableError e)"

text \<open>A function that throws the same error at every call, and three error objects.\<close>

definition alwaysFails :: "apiError \<Rightarrow> nat \<Rightarrow> apiError + unit" where
  "alwaysFails e attempt = Inl e"

definition rateLimitError :: apiError where
  "rateLimitError = \<lparr>err_message = ''rate limited'', err_status = Some 429,
     err_type = Some ''rate_limit_error'', err_response_status = None, err_code = None\<rparr>"

definition overloadedError :: apiError where
  "overloadedError = \<lparr>err_message = ''overloaded'', err_status = Some 529,
     err_type = Some ''overloaded_error'', err_response_status = None, err_code = None\<rparr>"

definition authenticationError :: apiError where
  "authenticationError = \<lparr>err_message = ''invalid x-api-key'', err_status = Some 401,
     err_type = Some ''authentication_error'', err_response_status = None, err_code = None\<rparr>"

definition connectionResetError :: apiError where
  "connectionResetError = \<lparr>err_message = ''socket hang up'', err_status = None,
     err_type = None, err_response_status = None, err_code = Some ''ECONNRESET''\<rparr>"

text \<open>
  The classes of the specification: a failure signals rate limiting (HTTP 429 or the type
  \<open>rate_limit_error\<close>), service overload (HTTP 529 or 503, or the type \<open>overloaded_error\<close>),
  or a network-level condition (connection reset, timeout, connection refused, host
  unresolvable).
\<close>

definition signalsRateLimit :: "apiError \<Rightarrow> bool" where
  "signalsRateLimit e =
     (err_status e = Some 429 \<or> err_type e = Some ''rate_limit_error''
      \<or> err_response_status e = Some 429)"

definition signalsOverload :: "apiError \<Rightarrow> bool" where
  "signalsOverload e =
     (err_status e = Some 529 \<or> err_type e = Some ''overloaded_error''
      \<or> err_response_status e = Some 503)"

definition signalsNetworkFailure :: "apiError \<Rightarrow> bool" where
  "signalsNetworkFailure e =
     (err_code e = Some ''ECONNRESET'' \<or> err_code e = Some ''ETIMEDOUT''
      \<or> err_code e = Some ''ECONNREFUSED'' \<or> err_code e = Some ''ENOTFOUND'')"

section \<open>Complexity classification (core/model-router.js, LightweightRouter)\<close>

text \<open>
  A JavaScript string is its sequence of UTF-16 code units: \<open>message.length\<close> counts them,
  and \<open>String.prototype.includes\<close> and a regular expression without the \<open>u\<close> flag match on
  them. The keywords of the source are Japanese text, written here by their code units.
\<close>

type_synonym jsString = "nat list"

fun startsWith :: "jsString \<Rightarrow> jsString \<Rightarrow> bool" where
  "startsWith str [] = True"
| "startsWith [] (k # ks) = False"
| "startsWith (c # cs) (k # ks) = (c = k \<and> startsWith cs ks)"

fun js_includes :: "jsString \<Rightarrow> jsString \<Rightarrow> bool" where
  "js_includes [] keyword = (keyword = [])"
| "js_includes (c # cs) keyword = (startsWith (c # cs) keyword \<or> js_includes cs keyword)"

text \<open>
  Every regular expression of \<open>containsIndicator\<close> is an alternation of literal strings, so
  \<open>pattern.test(message)\<close> holds when the message contains one of the alternatives.
\<close>

definition regexTest :: "jsString list \<Rightarrow> jsString \<Rightarrow> bool" where
  "regexTest alternatives message = list_ex (js_includes message) alternatives"

text \<open>The property names of the \<open>patterns\<close> object, in the order of the source.\<close>

definition ind_abstractConcept :: jsString where
  "ind_abstractConcept = [0x62BD, 0x8C61, 0x7684, 0x6982, 0x5FF5]"

definition ind_emotionAnalysis :: jsString where
  "ind_emotionAnalysis = [0x611F, 0x60C5, 0x5206, 0x6790]"

definition ind_longTextGeneration :: jsString where
  "ind_longTextGeneration = [0x9577, 0x6587, 0x751F, 0x6210]"

definition ind_valueJudgement :: jsString where
  "ind_valueJudgement = [0x4FA1, 0x5024, 0x89B3, 0x5224, 0x5B9A]"

definition ind_creativeThinking :: jsString where
  "ind_creativeThinking = [0x5275, 0x9020, 0x7684, 0x601D, 0x8003]"

definition ind_complexReasoning :: jsString where
  "ind_complexReasoning = [0x8907, 0x96D1, 0x306A, 0x63A8, 0x8AD6]"

definition ind_scheduleAdjustment :: jsString where
  "ind_scheduleAdjustment = [0x30B9, 0x30B1, 0x30B8, 0x30E5, 0x30FC, 0x30EB, 0x8ABF, 0x6574]"

definition ind_mailHandling :: jsString where
  "ind_mailHandling = [0x30E1, 0x30FC, 0x30EB, 0x51E6, 0x7406]"

definition ind_apiOperation :: jsString where
  "ind_apiOperation = [0x0041, 0x0050, 0x0049, 0x64CD, 0x4F5C]"

definition ind_factExtraction :: jsString where
  "ind_factExtraction = [0x4E8B, 0x5B9F, 0x62BD, 0x51FA]"

definition ind_shortSummary :: jsString where
  "ind_shortSummary = [0x77ED, 0x6587, 0x8981, 0x7D04]"

definition ind_simpleQuestion :: jsString where
  "ind_simpleQuestion = [0x5358, 0x7D14, 0x8CEA, 0x554F]"

text \<open>
  The value stored under a property: a regular expression (its alternatives) or a boolean.
  Two properties hold booleans: the one for long texts is \<open>message.length > 500\<close>, and the one
  for short summaries is written \<open>/.../ && message.length < 200\<close>, which JavaScript evaluates
  to the boolean \<open>message.length < 200\<close> since a regular expression object is truthy.
\<close>

datatype pattern = RegExp "jsString list" | Boolean bool

definition patterns :: "jsString \<Rightarrow> (jsString \<times> pattern) list" where
  "patterns message =
    [(ind_abstractConcept, RegExp
        [[0x62BD, 0x8C61], [0x6982, 0x5FF5], [0x54F2, 0x5B66], [0x601D, 0x60F3],
         [0x672C, 0x8CEA], [0x610F, 0x5473]]),
     (ind_emotionAnalysis, RegExp
        [[0x611F, 0x60C5], [0x6C17, 0x6301, 0x3061], [0x5FC3, 0x7406],
         [0x30B9, 0x30C8, 0x30EC, 0x30B9], [0x75B2, 0x308C], [0x5B09, 0x3057, 0x3044],
         [0x60B2, 0x3057, 0x3044]]),
     (ind_longTextGeneration, Boolean (length message > 500)),
     (ind_valueJudgement, RegExp
        [[0x4FA1, 0x5024, 0x89B3], [0x4FE1, 0x5FF5], [0x5927, 0x5207], [0x91CD, 0x8981],
         [0x610F, 0x5473], [0x76EE, 0x7684]]),
     (ind_creativeThinking, RegExp
        [[0x30A2, 0x30A4, 0x30C7, 0x30A2],
         [0x30AF, 0x30EA, 0x30A8, 0x30A4, 0x30C6, 0x30A3, 0x30D6], [0x5275, 0x9020],
         [0x767A, 0x60F3], [0x30D6, 0x30EC, 0x30B9, 0x30C8]]),
     (ind_complexReasoning, RegExp
        [[0x5206, 0x6790], [0x63A8, 0x8AD6], [0x8003, 0x5BDF], [0x691C, 0x8A0E],
         [0x5224, 0x65AD], [0x8A55, 0x4FA1]]),
     (ind_scheduleAdjustment, RegExp
        [[0x4E88, 0x5B9A], [0x30B9, 0x30B1, 0x30B8, 0x30E5, 0x30FC, 0x30EB],
         [0x4F1A, 0x8B70], [0x6253, 0x3061, 0x5408, 0x308F, 0x305B], [0x30A2, 0x30DD]]),
     (ind_mailHandling, RegExp
        [[0x30E1, 0x30FC, 0x30EB], [0x9023, 0x7D61], [0x8FD4, 0x4FE1], [0x9001, 0x4FE1]]),
     (ind_apiOperation, RegExp
        [[0x0041, 0x0050, 0x0049], [0x30C7, 0x30FC, 0x30BF], [0x53D6, 0x5F97],
         [0x9001, 0x4FE1], [0x66F4, 0x65B0]]),
     (ind_factExtraction, RegExp
        [[0x4E8B, 0x5B9F], [0x60C5, 0x5831], [0x30C7, 0x30FC, 0x30BF], [0x7D71, 0x8A08]]),
     (ind_shortSummary, Boolean (length message < 200)),
     (ind_simpleQuestion, RegExp
        [[0xFF1F], [0x003F], [0x6559, 0x3048, 0x3066], [0x4F55], [0x3044, 0x3064],
         [0x3069, 0x3053]])]"


definition containsIndicator :: "jsString \<Rightarrow> jsString \<Rightarrow> bool" where
  "containsIndicator message indicator =
     (case map_of (patterns message) indicator of
        Some (Boolean b) \<Rightarrow> b
      | Some (RegExp alternatives) \<Rightarrow> regexTest alternatives message
      | None \<Rightarrow> False)"

definition getComplexityLevel :: "rat \<Rightarrow> string" where
  "getComplexityLevel score =
     (if score \<ge> 10 then ''claude-opus-4.6''
      else if score \<ge> 7 then ''claude-sonnet-4''
      else if score \<ge> 5 then ''glm-4.7''
      else if score \<ge> 3 then ''deepseek-v3''
      else ''claude-code'')"

text \<open>
  \<open>config.complexityThresholds\<close> comes from \<open>config/routing-rules.json\<close>, which is read at
  start-up; it is a parameter here: the levels in the order of \<open>Object.entries\<close>, each with
  its score and its indicator names.
\<close>

record levelConfig =
  lc_score :: rat
  lc_indicators :: "jsString list"

type_synonym complexityThresholds = "(string \<times> levelConfig) list"

record matchedIndicator =
  mi_level :: string
  mi_indicator :: jsString
  mi_score :: rat

record analysis =
  totalScore :: rat
  complexity :: string
  indicators :: "matchedIndicator list"
  lengthBonus :: rat

definition matchedIndicators :: "complexityThresholds \<Rightarrow> jsString \<Rightarrow> matchedIndicator list" where
  "matchedIndicators thresholds message =
     concat (map (\<lambda>(level, config).
        map (\<lambda>indicator. \<lparr>mi_level = level, mi_indicator = indicator, mi_score = lc_score config\<rparr>)
          (filter (containsIndicator message) (lc_indicators config))) thresholds)"

definition analyzeComplexity :: "complexityThresholds \<Rightarrow> jsString \<Rightarrow> analysis" where
  "analyzeComplexity thresholds message =
     (let matched = matchedIndicators thresholds message;
          bonus = min (rat_of_nat (length message) / 200) 3;
          score = sum_list (map mi_score matched) + bonus
      in \<lparr>totalScore = score, complexity = getComplexityLevel score,
          indicators = matched, lengthBonus = bonus\<rparr>)"

text \<open>
  \<open>LightweightRouter.analyzeComplexity\<close>: the keyword table is part of the source. Its keys
  are integers, so \<open>Object.entries\<close> lists them in ascending order.
\<close>

definition lw_patterns :: "(int \<times> jsString list) list" where
  "lw_patterns =
    [(1,
        [[0x30D5, 0x30A1, 0x30A4, 0x30EB], [0x30C7, 0x30D0, 0x30C3, 0x30B0],
         [0x0055, 0x0062, 0x0075, 0x006E, 0x0074, 0x0075], [0x8A2D, 0x5B9A],
         [0x30B7, 0x30B9, 0x30C6, 0x30E0], [0x4FEE, 0x6B63]]),
     (3,
        [[0x30A2, 0x30A4, 0x30C7, 0x30A2], [0x307E, 0x3068, 0x3081], [0x6574, 0x7406],
         [0x30C1, 0x30E3, 0x30C3, 0x30C8], [0x8981, 0x7D04], [0x5206, 0x985E]]),
     (5,
        [[0x30AB, 0x30EC, 0x30F3, 0x30C0, 0x30FC], [0x0047, 0x006D, 0x0061, 0x0069, 0x006C],
         [0x30B9, 0x30B1, 0x30B8, 0x30E5, 0x30FC, 0x30EB], [0x4F1A, 0x8B70],
         [0x4E88, 0x5B9A], [0x8A2D, 0x5B9A]]),
     (7,
        [[0x30D6, 0x30ED, 0x30B0], [0x521D, 0x7A3F], [0x8A18, 0x4E8B], [0x6587, 0x7AE0],
         [0x57F7, 0x7B46], [0x30E1, 0x30FC, 0x30EB], [0x8FD4, 0x4FE1], [0x4F5C, 0x6210]]),
     (10,
        [[0x4EBA, 0x751F], [0x76F8, 0x8AC7], [0x91CD, 0x8981], [0x6226, 0x7565],
         [0x6700, 0x7D42], [0x4ED5, 0x4E0A, 0x3052], [0x6C7A, 0x65AD], [0x5224, 0x65AD]])]"


record lwAnalysis =
  lw_totalScore :: int
  lw_complexity :: string

definition lw_keywordScore :: "jsString \<Rightarrow> int" where
  "lw_keywordScore message =
     foldl (\<lambda>score (level, keywords).
              if list_ex (js_includes message) keywords then max score level else score)
       0 lw_patterns"

definition lw_analyzeComplexity :: "jsString \<Rightarrow> lwAnalysis" where
  "lw_analyzeComplexity message =
     (let score = lw_keywordScore message;
          score = (if length message > 500 then score + 2 else score);
          score = (if length message > 1000 then score + 2 else score)
      in \<lparr>lw_totalScore = score, lw_complexity = getComplexityLevel (of_int score)\<rparr>)"

section \<open>Model selection, escalation and fallback (core/model-router.js)\<close>

text \<open>
  A model is named by a string. \<open>getModelLevel\<close> maps the five names of the router to the
  labels \<open>L1 (...)\<close> to \<open>L5 (...)\<close> and every other name to \<open>Unknown\<close>; the label is
  modelled by its tier, \<open>Unknown\<close> by \<open>None\<close>. Object literals are association lists read
  with \<open>map_of\<close>; a name that is not a key of the literal reads \<open>undefined\<close> (\<open>None\<close>).
  The names of the properties that every object inherits (\<open>constructor\<close>, \<open>toString\<close> and
  the like) are not model names and are outside the model. Log output is not modelled.
\<close>

datatype tier = L1 | L2 | L3 | L4 | L5

definition levelMap :: "(string \<times> tier) list" where
  "levelMap =
    [(''claude-code'', L1),
     (''deepseek-v3'', L2),
     (''glm-4.7'', L3),
     (''claude-sonnet-4'', L4),
     (''claude-opus-4.6'', L5)]"

definition getModelLevel :: "string \<Rightarrow> tier option" where
  "getModelLevel modelName = map_of levelMap modelName"

definition modelNames :: "string list" where
  "modelNames = map fst levelMap"

text \<open>
  An \<open>Error\<close> object: its message and its \<open>cause\<close> property, which \<open>new Error(message)\<close>
  leaves unset.
\<close>

record jsError =
  js_message :: string
  js_cause :: "apiError option"

definition downgradeMap :: "(string \<times> string option) list" where
  "downgradeMap =
    [(''claude-opus-4.6'', Some ''claude-sonnet-4''),
     (''claude-sonnet-4'', Some ''glm-4.7''),
     (''glm-4.7'', Some ''deepseek-v3''),
     (''deepseek-v3'', None),
     (''claude-code'', None)]"

definition escalationMap :: "(string \<times> string) list" where
  "escalationMap =
    [(''claude-code'', ''deepseek-v3''),
     (''deepseek-v3'', ''glm-4.7''),
     (''glm-4.7'', ''claude-sonnet-4''),
     (''claude-sonnet-4'', ''claude-opus-4.6''),
     (''claude-opus-4.6'', ''claude-opus-4.6'')]"

definition escalateModel :: "string \<Rightarrow> string \<Rightarrow> jsError + string" where
  "escalateModel currentModel reason =
     (if reason = ''api_error'' then
        (case map_of downgradeMap currentModel of
           Some (Some newModel) \<Rightarrow> Inr newModel
         | Some None \<Rightarrow>
             Inl \<lparr>js_message = ''No fallback available for '' @ currentModel, js_cause = None\<rparr>
         | None \<Rightarrow>
             Inl \<lparr>js_message = ''No fallback available for '' @ currentModel, js_cause = None\<rparr>)
      else
        (case map_of escalationMap currentModel of
           Some newModel \<Rightarrow> Inr newModel
         | None \<Rightarrow> Inr ''claude-opus-4.6''))"

text \<open>
  The fallback edge is \<open>escalateModel\<close> with the reason \<open>api_error\<close>, as the loop of
  \<open>routeWithFallback\<close> applies it: a thrown error ends the chain.
\<close>

definition fallbackEdge :: "string \<Rightarrow> string option" where
  "fallbackEdge currentModel =
     (case escalateModel currentModel ''api_error'' of
        Inr newModel \<Rightarrow> Some newModel
      | Inl e \<Rightarrow> None)"

fun fallbackHops :: "nat \<Rightarrow> string \<Rightarrow> string option" where
  "fallbackHops 0 currentModel = Some currentModel"
| "fallbackHops (Suc n) currentModel =
     (case fallbackEdge currentModel of
        None \<Rightarrow> None
      | Some newModel \<Rightarrow> fallbackHops n newModel)"

text \<open>
  \<open>FALLBACK_CHAIN\<close> of utils/api-retry.js is keyed by handler names; an entry is the handler
  class its factory constructs, or \<open>null\<close>.
\<close>

datatype handler = ClaudeSonnetHandler | GLMHandler | DeepSeekHandler

definition FALLBACK_CHAIN :: "(string \<times> handler option) list" where
  "FALLBACK_CHAIN =
    [(''claude-opus'', Some ClaudeSonnetHandler),
     (''claude-sonnet'', Some GLMHandler),
     (''glm'', Some DeepSeekHandler),
     (''deepseek'', None)]"

text \<open>
  The method \<open>adjustForEmotion\<close>. Its only call is in the first declaration of
  \<open>selectOptimalModel\<close> in the class, the one with the parameters \<open>(complexity,
  emotionalContext, costConstraints)\<close>. The class declares \<open>selectOptimalModel\<close> a second
  time further down, with the parameters \<open>(message, context)\<close>; in a class body the later
  declaration of a method replaces the earlier one, so the first declaration never runs and
  \<open>adjustForEmotion\<close> takes no part in the selection.
\<close>

record emotionalContext =
  timeOfDay :: string
  userMood :: string

definition adjustForEmotion :: "string \<Rightarrow> emotionalContext \<Rightarrow> string" where
  "adjustForEmotion model emotionalContext =
     (if timeOfDay emotionalContext = ''night'' \<or> userMood emotionalContext = ''tired'' then
        (if model = ''deepseek-v3'' then ''glm-4.7'' else model)
      else if userMood emotionalContext = ''stressed'' then ''claude-opus''
      else model)"

definition emergencyMap :: "(string \<times> string) list" where
  "emergencyMap =
    [(''claude-opus-4.6'', ''glm-4.7''),
     (''claude-sonnet-4'', ''glm-4.7''),
     (''glm-4.7'', ''glm-4.7''),
     (''deepseek-v3'', ''deepseek-v3''),
     (''claude-code'', ''claude-code'')]"

record selection =
  sel_model :: string
  sel_emergency :: bool
  sel_downgraded :: bool

definition emergencyModelFor :: "string \<Rightarrow> string" where
  "emergencyModelFor base =
     (case map_of emergencyMap base of
        Some emergencyModel \<Rightarrow> emergencyModel
      | None \<Rightarrow> ''deepseek-v3'')"

definition selectEmergencyModel :: "complexityThresholds \<Rightarrow> jsString \<Rightarrow> selection" where
  "selectEmergencyModel thresholds message =
     (let base = complexity (analyzeComplexity thresholds message);
          emergencyModel = emergencyModelFor base
      in \<lparr>sel_model = emergencyModel, sel_emergency = True,
          sel_downgraded = (base \<noteq> emergencyModel)\<rparr>)"

text \<open>
  \<open>selectOptimalModel(message, context)\<close>, the declaration of the class that runs: it checks
  the emergency flag of the cost optimizer first (no flag when no cost optimizer is
  attached). The result is the \<open>model\<close> property of the object that the returned promise
  resolves to. The argument \<open>context\<close> and the compaction and caching of an attached cost
  optimizer do not enter the choice of the model.
\<close>

definition selectOptimalModel_cost :: "bool \<Rightarrow> complexityThresholds \<Rightarrow> jsString \<Rightarrow> string" where
  "selectOptimalModel_cost emergencyEnabled thresholds message =
     (if emergencyEnabled then sel_model (selectEmergencyModel thresholds message)
      else complexity (analyzeComplexity thresholds message))"

text \<open>\<open>LightweightRouter.selectModel\<close> and \<open>LightweightRouter.selectEmergencyModel\<close>.\<close>

definition lw_selectEmergencyModel :: "jsString \<Rightarrow> selection" where
  "lw_selectEmergencyModel message =
     (let base = lw_complexity (lw_analyzeComplexity message);
          emergencyModel = emergencyModelFor base
      in \<lparr>sel_model = emergencyModel, sel_emergency = True,
          sel_downgraded = (base \<noteq> emergencyModel)\<rparr>)"

definition lw_selectModel :: "bool \<Rightarrow> jsString \<Rightarrow> selection" where
  "lw_selectModel emergencyEnabled message =
     (if emergencyEnabled then lw_selectEmergencyModel message
      else \<lparr>sel_model = lw_complexity (lw_analyzeComplexity message), sel_emergency = False,
            sel_downgraded = False\<rparr>)"

text \<open>The clamp of the specification: L4 and L5 are forced down to L3.\<close>

fun emergencyTier :: "tier \<Rightarrow> tier" where
  "emergencyTier L5 = L3"
| "emergencyTier L4 = L3"
| "emergencyTier L3 = L3"
| "emergencyTier L2 = L2"
| "emergencyTier L1 = L1"

section \<open>Numbers of the budget monitors (IEEE 754 binary64)\<close>

text \<open>
  The costs, token counts, budgets and percentages of the budget monitors are JavaScript
  numbers, that is, doubles. A finite double is modelled by its exact value, a rational; the
  two zeros are one value, which changes no comparison and no set membership. The result of an
  arithmetic operation is the exact result rounded to the nearest double, a tie going to the
  even significand: 53 significant bits, the exponent of the leading bit from -1022 to 1023,
  gradual underflow below, and infinity when the rounded magnitude reaches \<open>2^1024\<close>.

  \<open>bitLength n\<close> is the number of binary digits of \<open>n\<close>, \<open>exponentOf x\<close> the exponent \<open>e\<close>
  with \<open>2^e \<le> x < 2^(e+1)\<close> of a positive \<open>x\<close>, and \<open>quantum e\<close> the distance \<open>2^(e-52)\<close> of
  neighbouring doubles at that exponent.
\<close>

datatype double = Finite rat | PosInf | NegInf | NaN

fun bitLength :: "nat \<Rightarrow> nat" where
  "bitLength n = (if n = 0 then 0 else Suc (bitLength (n div 2)))"

declare bitLength.simps [simp del]

definition exponentOf :: "rat \<Rightarrow> int" where
  "exponentOf x =
     (if x \<ge> 1 then int (bitLength (nat \<lfloor>x\<rfloor>)) - 1
      else if x * 2 ^ (bitLength (nat \<lfloor>1 / x\<rfloor>) - 1) \<ge> 1
        then 1 - int (bitLength (nat \<lfloor>1 / x\<rfloor>))
      else - int (bitLength (nat \<lfloor>1 / x\<rfloor>)))"

definition roundHalfEven :: "rat \<Rightarrow> int" where
  "roundHalfEven x =
     (if x - of_int \<lfloor>x\<rfloor> < 1 / 2 then \<lfloor>x\<rfloor>
      else if x - of_int \<lfloor>x\<rfloor> > 1 / 2 then \<lfloor>x\<rfloor> + 1
      else if even \<lfloor>x\<rfloor> then \<lfloor>x\<rfloor> else \<lfloor>x\<rfloor> + 1)"

definition quantum :: "int \<Rightarrow> rat" where
  "quantum e = (if e \<ge> 52 then 2 ^ nat (e - 52) else 1 / 2 ^ nat (52 - e))"

text \<open>The rounding of a positive magnitude; \<open>None\<close> is overflow.\<close>

definition roundMagnitude :: "rat \<Rightarrow> rat option" where
  "roundMagnitude a =
     (let e = max (exponentOf a) (- 1022);
          n = roundHalfEven (a / quantum e)
      in if e > 1023 \<or> (e = 1023 \<and> n \<ge> 2 ^ 53) then None
         else Some (of_int n * quantum e))"

definition roundToDouble :: "rat \<Rightarrow> double" where
  "roundToDouble x =
     (if x = 0 then Finite 0
      else if x > 0 then (case roundMagnitude x of None \<Rightarrow> PosInf | Some r \<Rightarrow> Finite r)
      else (case roundMagnitude (- x) of None \<Rightarrow> NegInf | Some r \<Rightarrow> Finite (- r)))"

text \<open>The operators \<open>+\<close>, \<open>/\<close>, \<open>*\<close>, \<open>>=\<close> and \<open><\<close> on numbers, and \<open>Math.round\<close>.\<close>

fun js_add :: "double \<Rightarrow> double \<Rightarrow> double" where
  "js_add (Finite x) (Finite y) = roundToDouble (x + y)"
| "js_add NaN b = NaN"
| "js_add a NaN = NaN"
| "js_add PosInf NegInf = NaN"
| "js_add NegInf PosInf = NaN"
| "js_add PosInf b = PosInf"
| "js_add a PosInf = PosInf"
| "js_add NegInf b = NegInf"
| "js_add a NegInf = NegInf"

fun js_div :: "double \<Rightarrow> double \<Rightarrow> double" where
  "js_div (Finite x) (Finite y) =
     (if y = 0 then (if x = 0 then NaN else if x > 0 then PosInf else NegInf)
      else roundToDouble (x / y))"
| "js_div NaN b = NaN"
| "js_div a NaN = NaN"
| "js_div (Finite x) b = Finite 0"
| "js_div PosInf (Finite y) = (if y \<ge> 0 then PosInf else NegInf)"
| "js_div NegInf (Finite y) = (if y \<ge> 0 then NegInf else PosInf)"
| "js_div a b = NaN"

fun js_mul :: "double \<Rightarrow> double \<Rightarrow> double" where
  "js_mul (Finite x) (Finite y) = roundToDouble (x * y)"
| "js_mul NaN b = NaN"
| "js_mul a NaN = NaN"
| "js_mul (Finite x) PosInf = (if x = 0 then NaN else if x > 0 then PosInf else NegInf)"
| "js_mul (Finite x) NegInf = (if x = 0 then NaN else if x > 0 then NegInf else PosInf)"
| "js_mul PosInf (Finite y) = (if y = 0 then NaN else if y > 0 then PosInf else NegInf)"
| "js_mul NegInf (Finite y) = (if y = 0 then NaN else if y > 0 then NegInf else PosInf)"
| "js_mul PosInf PosInf = PosInf"
| "js_mul PosInf NegInf = NegInf"
| "js_mul NegInf PosInf = NegInf"
| "js_mul NegInf NegInf = PosInf"

fun js_ge :: "double \<Rightarrow> double \<Rightarrow> bool" where
  "js_ge (Finite x) (Finite y) = (x \<ge> y)"
| "js_ge NaN b = False"
| "js_ge a NaN = False"
| "js_ge PosInf b = True"
| "js_ge a NegInf = True"
| "js_ge a b = False"

fun js_lt :: "double \<Rightarrow> double \<Rightarrow> bool" where
  "js_lt (Finite x) (Finite y) = (x < y)"
| "js_lt NaN b = False"
| "js_lt a NaN = False"
| "js_lt PosInf b = False"
| "js_lt a PosInf = True"
| "js_lt a NegInf = False"
| "js_lt NegInf b = True"

fun js_round :: "double \<Rightarrow> double" where
  "js_round (Finite x) = Finite (of_int \<lfloor>x + 1 / 2\<rfloor>)"
| "js_round d = d"

text \<open>The literals \<open>0.7\<close> and \<open>0.9\<close>: the doubles nearest to 7/10 and 9/10.\<close>

definition d0_7 :: double where
  "d0_7 = roundToDouble (7 / 10)"

definition d0_9 :: double where
  "d0_9 = roundToDouble (9 / 10)"

text \<open>\<open>budget || 5.0\<close>: a budget that is absent, zero or NaN is replaced by 5.\<close>

definition budgetOrDefault :: "double option \<Rightarrow> double" where
  "budgetOrDefault configBudget =
     (case configBudget of
        None \<Rightarrow> Finite 5
      | Some b \<Rightarrow> if b = Finite 0 \<or> b = NaN then Finite 5 else b)"

section \<open>Budget monitoring (optimization/lightweight-monitor.js, optimization/cost-optimizer.js)\<close>

text \<open>
  The date is the string \<open>new Date().toISOString().split('T')[0]\<close> of the moment of the call
  and is a parameter of each call. The emergency flag is the object stored in
  \<open>global.emergencyMode\<close> (or in \<open>config.emergencyMode\<close> for the cost optimizer); \<open>None\<close> is
  \<open>undefined\<close>. Of that object the properties \<open>enabled\<close> and \<open>allowedLevels\<close> are modelled; the
  time stamp \<open>activatedAt\<close> and the list \<open>restrictedLevels\<close> of the cost optimizer are left
  out.

  An alert is a call of \<open>triggerAlert\<close> (of \<open>triggerBudgetAlert\<close> in the cost optimizer) with
  its level. What the alert then writes to the dashboard file, the status file and the
  console is not modelled; the lightweight monitor writes the dashboard at most once an hour.
  Failures of these writes are caught where they happen, with one exception in the cost
  optimizer, which is modelled: see \<open>checkBudgetAlert\<close>. The configured path
  \<open>config.obsidianPath\<close> is a string or absent.
\<close>

datatype alertLevel = INFO | WARNING | CRITICAL

record alert =
  al_level :: alertLevel
  al_percentage :: double

record emergencyMode =
  em_enabled :: bool
  em_allowedLevels :: "tier list"

definition isEmergencyMode :: "emergencyMode option \<Rightarrow> bool" where
  "isEmergencyMode flag = (case flag of None \<Rightarrow> False | Some m \<Rightarrow> em_enabled m)"

subsection \<open>LightweightMonitor\<close>

record dailyUsage =
  du_date :: string
  du_totalCost :: double
  du_totalTokens :: double
  du_requests :: double
  du_lastCheck :: double

text \<open>
  The set \<open>alertTriggered\<close> is a JavaScript \<open>Set\<close> of numbers; its membership test agrees
  with equality of values.
\<close>

record monitor =
  lm_dailyBudget :: double
  lm_dailyUsage :: dailyUsage
  lm_alertThresholds :: "double list"
  lm_alertTriggered :: "double set"
  global_emergencyMode :: "emergencyMode option"

text \<open>
  The constructor. The last argument is the value of \<open>global.emergencyMode\<close> at that moment.
\<close>

definition new_LightweightMonitor ::
  "double option \<Rightarrow> string \<Rightarrow> emergencyMode option \<Rightarrow> monitor" where
  "new_LightweightMonitor configBudget today flag =
     \<lparr>lm_dailyBudget = budgetOrDefault configBudget,
      lm_dailyUsage = \<lparr>du_date = today, du_totalCost = Finite 0, du_totalTokens = Finite 0,
                        du_requests = Finite 0, du_lastCheck = Finite 0\<rparr>,
      lm_alertThresholds = [d0_7, d0_9],
      lm_alertTriggered = {},
      global_emergencyMode = flag\<rparr>"

definition resetDailyUsage :: "string \<Rightarrow> monitor \<Rightarrow> monitor" where
  "resetDailyUsage newDate s =
     s\<lparr>lm_dailyUsage := \<lparr>du_date = newDate, du_totalCost = Finite 0, du_totalTokens = Finite 0,
                           du_requests = Finite 0, du_lastCheck = Finite 0\<rparr>,
       lm_alertTriggered := {},
       global_emergencyMode :=
         (case global_emergencyMode s of
            None \<Rightarrow> None
          | Some m \<Rightarrow> Some (m\<lparr>em_enabled := False\<rparr>))\<rparr>"

definition lm_percentage :: "monitor \<Rightarrow> double" where
  "lm_percentage s = js_div (du_totalCost (lm_dailyUsage s)) (lm_dailyBudget s)"

text \<open>
  The loop of \<open>checkThresholds\<close>: the thresholds in list order; each one that fires is added
  to the set and its \<open>triggerAlert(threshold, percentage)\<close> is queued with \<open>setImmediate\<close>.
\<close>

fun checkThresholds_loop ::
  "double \<Rightarrow> double list \<Rightarrow> double set \<Rightarrow> (double \<times> double) list \<times> double set" where
  "checkThresholds_loop percentage [] triggered = ([], triggered)"
| "checkThresholds_loop percentage (threshold # rest) triggered =
     (if js_ge percentage threshold \<and> threshold \<notin> triggered
      then (case checkThresholds_loop percentage rest (insert threshold triggered) of
              (queued, triggered') \<Rightarrow> ((threshold, percentage) # queued, triggered'))
      else checkThresholds_loop percentage rest triggered)"

definition checkThresholds :: "monitor \<Rightarrow> (double \<times> double) list \<times> monitor" where
  "checkThresholds s =
     (case checkThresholds_loop (lm_percentage s) (lm_alertThresholds s) (lm_alertTriggered s) of
        (queued, triggered') \<Rightarrow> (queued, s\<lparr>lm_alertTriggered := triggered'\<rparr>))"

definition lm_trackUsage ::
  "string \<Rightarrow> double \<Rightarrow> double \<Rightarrow> monitor \<Rightarrow> (double \<times> double) list \<times> monitor" where
  "lm_trackUsage today cost tokens s =
     (let s1 = (if du_date (lm_dailyUsage s) \<noteq> today then resetDailyUsage today s else s);
          u = lm_dailyUsage s1;
          s2 = s1\<lparr>lm_dailyUsage := u\<lparr>du_totalCost := js_add (du_totalCost u) cost,
                                      du_totalTokens := js_add (du_totalTokens u) tokens,
                                      du_requests := js_add (du_requests u) (Finite 1)\<rparr>\<rparr>
      in checkThresholds s2)"

definition lm_enableEmergencyMode :: "monitor \<Rightarrow> monitor" where
  "lm_enableEmergencyMode s =
     s\<lparr>global_emergencyMode := Some \<lparr>em_enabled = True, em_allowedLevels = [L1, L2, L3]\<rparr>\<rparr>"

definition triggerAlert :: "double \<times> double \<Rightarrow> monitor \<Rightarrow> alert \<times> monitor" where
  "triggerAlert call s =
     (case call of (threshold, percentage) \<Rightarrow>
        (\<lparr>al_level = (if js_ge threshold d0_9 then CRITICAL else WARNING),
          al_percentage = percentage\<rparr>,
         if js_ge threshold d0_9 then lm_enableEmergencyMode s else s))"

text \<open>
  The queued callbacks run in the order they were queued, after \<open>trackUsage\<close> has returned;
  \<open>lm_track\<close> is a call together with its callbacks, which are taken to have finished
  before the next call of \<open>trackUsage\<close>. A callback waits for the dashboard file at most
  once an hour; a call of \<open>trackUsage\<close> that arrives during such a wait is a matter of
  timing and is outside the model.
\<close>

fun runImmediates :: "(double \<times> double) list \<Rightarrow> monitor \<Rightarrow> alert list \<times> monitor" where
  "runImmediates [] s = ([], s)"
| "runImmediates (call # queued) s =
     (case triggerAlert call s of
        (a, s') \<Rightarrow> (case runImmediates queued s' of (as, s'') \<Rightarrow> (a # as, s'')))"

definition lm_track :: "string \<Rightarrow> double \<times> double \<Rightarrow> monitor \<Rightarrow> alert list \<times> monitor" where
  "lm_track today usage s =
     (case lm_trackUsage today (fst usage) (snd usage) s of
        (queued, s') \<Rightarrow> runImmediates queued s')"

text \<open>
  A sequence of calls \<open>trackUsage(cost, tokens)\<close> on one date: the alerts of each call and
  the final state.
\<close>

fun lm_run ::
  "string \<Rightarrow> (double \<times> double) list \<Rightarrow> monitor \<Rightarrow> alert list list \<times> monitor" where
  "lm_run today [] s = ([], s)"
| "lm_run today (usage # rest) s =
     (case lm_track today usage s of
        (as, s') \<Rightarrow> (case lm_run today rest s' of (ass, s'') \<Rightarrow> (as # ass, s'')))"

definition countLevel :: "alertLevel \<Rightarrow> alert list list \<Rightarrow> nat" where
  "countLevel level ass = length (filter (\<lambda>a. al_level a = level) (concat ass))"

subsection \<open>CostOptimizer\<close>

text \<open>
  The usage log is keyed by the date and, within a date, by the model name; the model names
  are those of the router.
\<close>

record modelUsage =
  mu_cost :: double
  mu_tokens :: double
  mu_count :: double

record dayUsage =
  day_totalCost :: double
  day_totalTokens :: double
  day_requests :: double
  day_models :: "string \<rightharpoonup> modelUsage"

record costOptimizer =
  co_dailyBudget :: double
  co_daily :: "string \<rightharpoonup> dayUsage"
  co_emergencyMode :: "emergencyMode option"

definition new_CostOptimizer :: "double option \<Rightarrow> costOptimizer" where
  "new_CostOptimizer configBudget =
     \<lparr>co_dailyBudget = budgetOrDefault configBudget,
      co_daily = Map.empty,
      co_emergencyMode = None\<rparr>"

definition co_enableEmergencyMode :: "costOptimizer \<Rightarrow> costOptimizer" where
  "co_enableEmergencyMode s =
     s\<lparr>co_emergencyMode := Some \<lparr>em_enabled = True, em_allowedLevels = [L1, L2, L3]\<rparr>\<rparr>"

text \<open>\<open>triggerBudgetAlert\<close> builds the alert object, with the percentage rounded.\<close>

definition triggerBudgetAlert :: "alertLevel \<Rightarrow> double \<Rightarrow> alert" where
  "triggerBudgetAlert level percentage =
     \<lparr>al_level = level, al_percentage = js_round percentage\<rparr>"

definition co_percentage :: "string \<Rightarrow> costOptimizer \<Rightarrow> double" where
  "co_percentage date s =
     (case co_daily s date of
        None \<Rightarrow> Finite 0
      | Some usage \<Rightarrow> js_mul (js_div (day_totalCost usage) (co_dailyBudget s)) (Finite 100))"

text \<open>
  \<open>trackUsage\<close> of the cost optimizer is asynchronous: its promise is resolved, or rejected.
  It is rejected in one case: at 90 percent or more, after the CRITICAL alert and after the
  emergency flag is set, \<open>enableEmergencyMode\<close> awaits \<open>updateEmergencyNotification\<close>, which
  reads and rewrites the dashboard file without catching a failure. Whether that update
  succeeds at the moment of the call is the parameter \<open>dashboardUpdated\<close>.
\<close>

datatype completion = Resolved | Rejected

definition checkBudgetAlert ::
  "string \<Rightarrow> bool \<Rightarrow> costOptimizer \<Rightarrow> (alert list \<times> completion) \<times> costOptimizer" where
  "checkBudgetAlert date dashboardUpdated s =
     (case co_daily s date of
        None \<Rightarrow> (([], Resolved), s)
      | Some usage \<Rightarrow>
          (let budgetPercentage =
                 js_mul (js_div (day_totalCost usage) (co_dailyBudget s)) (Finite 100) in
           if js_ge budgetPercentage (Finite 90)
             then (([triggerBudgetAlert CRITICAL budgetPercentage],
                    if dashboardUpdated then Resolved else Rejected),
                   co_enableEmergencyMode s)
           else if js_ge budgetPercentage (Finite 70)
             then (([triggerBudgetAlert WARNING budgetPercentage], Resolved), s)
           else if js_ge budgetPercentage (Finite 50)
             then (([triggerBudgetAlert INFO budgetPercentage], Resolved), s)
           else (([], Resolved), s)))"

definition co_trackUsage ::
  "string \<Rightarrow> string \<Rightarrow> double \<Rightarrow> double \<Rightarrow> bool \<Rightarrow> costOptimizer
     \<Rightarrow> (alert list \<times> completion) \<times> costOptimizer" where
  "co_trackUsage today modelUsed tokens cost dashboardUpdated s =
     (let usage = (case co_daily s today of
                     None \<Rightarrow> \<lparr>day_totalCost = Finite 0, day_totalTokens = Finite 0,
                               day_requests = Finite 0, day_models = Map.empty\<rparr>
                   | Some u \<Rightarrow> u);
          usage = usage\<lparr>day_totalCost := js_add (day_totalCost usage) cost,
                        day_totalTokens := js_add (day_totalTokens usage) tokens,
                        day_requests := js_add (day_requests usage) (Finite 1)\<rparr>;
          m = (case day_models usage modelUsed of
                 None \<Rightarrow> \<lparr>mu_cost = Finite 0, mu_tokens = Finite 0, mu_count = Finite 0\<rparr>
               | Some m0 \<Rightarrow> m0);
          m = m\<lparr>mu_cost := js_add (mu_cost m) cost, mu_tokens := js_add (mu_tokens m) tokens,
                mu_count := js_add (mu_count m) (Finite 1)\<rparr>;
          usage = usage\<lparr>day_models := (day_models usage)(modelUsed \<mapsto> m)\<rparr>
      in checkBudgetAlert today dashboardUpdated (s\<lparr>co_daily := (co_daily s)(today \<mapsto> usage)\<rparr>))"

text \<open>
  A sequence of calls \<open>trackUsage(modelUsed, tokens, cost)\<close> on one date, each with the
  state of the dashboard file at its moment: the alerts of each call and the final state.
\<close>

fun co_run ::
  "string \<Rightarrow> (string \<times> double \<times> double \<times> bool) list \<Rightarrow> costOptimizer
     \<Rightarrow> alert list list \<times> costOptimizer" where
  "co_run today [] s = ([], s)"
| "co_run today ((modelUsed, tokens, cost, dashboardUpdated) # rest) s =
     (case co_trackUsage today modelUsed tokens cost dashboardUpdated s of
        (r, s') \<Rightarrow> (case co_run today rest s' of (ass, s'') \<Rightarrow> (fst r # ass, s'')))"

section \<open>Notions of the statements and example inputs\<close>

text \<open>
  An example of \<open>complexityThresholds\<close> and a text of \<open>n\<close> letters \<open>a\<close>, which contains
  none of the keywords.
\<close>

definition exampleThresholds :: complexityThresholds where
  "exampleThresholds =
    [(''L2'', \<lparr>lc_score = 3, lc_indicators = [ind_simpleQuestion, ind_mailHandling]\<rparr>),
     (''L4'', \<lparr>lc_score = 7, lc_indicators = [ind_complexReasoning]\<rparr>)]"

definition plainText :: "nat \<Rightarrow> jsString" where
  "plainText n = replicate n 0x61"

text \<open>The levels of the lightweight table that have a keyword in the message.\<close>

definition lw_keywordMatches :: "jsString \<Rightarrow> (int \<times> jsString list) list" where
  "lw_keywordMatches message =
     filter (\<lambda>(level, keywords). list_ex (js_includes message) keywords) lw_patterns"

text \<open>
  The level of the alert of a threshold, as \<open>triggerAlert\<close> computes it, and the fractions of
  the budget that the monitor computes after each call of a sequence: the cumulative cost, as
  it adds it up, divided by the budget.
\<close>

definition thresholdLevel :: "double \<Rightarrow> alertLevel" where
  "thresholdLevel threshold = (if js_ge threshold d0_9 then CRITICAL else WARNING)"

fun cumulativeFractions :: "double \<Rightarrow> double \<Rightarrow> (double \<times> double) list \<Rightarrow> double list" where
  "cumulativeFractions budget spent [] = []"
| "cumulativeFractions budget spent (usage # rest) =
     js_div (js_add spent (fst usage)) budget
       # cumulativeFractions budget (js_add spent (fst usage)) rest"

text \<open>The triggered-set before the thresholds are checked: emptied when the date changed.\<close>

definition triggeredBefore :: "string \<Rightarrow> monitor \<Rightarrow> double set" where
  "triggeredBefore today s =
     (if du_date (lm_dailyUsage s) \<noteq> today then {} else lm_alertTriggered s)"

text \<open>
  The state of the monitor when \<open>trackUsage\<close> calls \<open>checkThresholds\<close>: after the reset of a
  new date and the accumulation.
\<close>

definition lm_accumulated :: "string \<Rightarrow> double \<Rightarrow> double \<Rightarrow> monitor \<Rightarrow> monitor" where
  "lm_accumulated today cost tokens s =
     (let s1 = (if du_date (lm_dailyUsage s) \<noteq> today then resetDailyUsage today s else s);
          u = lm_dailyUsage s1
      in s1\<lparr>lm_dailyUsage := u\<lparr>du_totalCost := js_add (du_totalCost u) cost,
                                  du_totalTokens := js_add (du_totalTokens u) tokens,
                                  du_requests := js_add (du_requests u) (Finite 1)\<rparr>\<rparr>)"

text \<open>The budget percentage after each call of a sequence on the cost optimizer.\<close>

fun co_percentages ::
  "string \<Rightarrow> (string \<times> double \<times> double \<times> bool) list \<Rightarrow> costOptimizer \<Rightarrow> double list" where
  "co_percentages today [] s = []"
| "co_percentages today ((modelUsed, tokens, cost, dashboardUpdated) # rest) s =
     (case co_trackUsage today modelUsed tokens cost dashboardUpdated s of
        (r, s') \<Rightarrow> co_percentage today s' # co_percentages today rest s')"

text \<open>Two dates that follow each other.\<close>

definition day1 :: string where
  "day1 = ''2026-03-01''"

definition day2 :: string where
  "day2 = ''2026-03-02''"

text \<open>What the cost optimizer has recorded as the cost of a date.\<close>

definition co_spent :: "string \<Rightarrow> costOptimizer \<Rightarrow> double" where
  "co_spent date s =
     (case co_daily s date of None \<Rightarrow> Finite 0 | Some usage \<Rightarrow> day_totalCost usage)"

text \<open>The thresholds of the constructor.\<close>

definition defaultThresholds :: "double list" where
  "defaultThresholds = [d0_7, d0_9]"

text \<open>
  A monitor made on the first date with the default budget, and the calls of a day whose
  cumulative cost is 3, 3.5, 4.5 and 4.75. The double just below 3.5, and the calls of a day
  on the cost optimizer whose cumulative cost is 3.75, 4, 4.75 and 4.875. All these costs are
  doubles.
\<close>

definition freshMonitor :: monitor where
  "freshMonitor = new_LightweightMonitor None day1 None"

definition exampleDay :: "(double \<times> double) list" where
  "exampleDay =
     [(Finite 3, Finite 900), (Finite (1 / 2), Finite 100), (Finite 1, Finite 200),
      (Finite (1 / 4), Finite 50)]"

definition belowThreePointFive :: rat where
  "belowThreePointFive = 7 / 2 - 1 / 2 ^ 51"

definition exampleOptimizerDay :: "(string \<times> double \<times> double \<times> bool) list" where
  "exampleOptimizerDay =
     [(''glm-4.7'', Finite 1000, Finite (15 / 4), True),
      (''glm-4.7'', Finite 100, Finite (1 / 4), True),
      (''glm-4.7'', Finite 500, Finite (3 / 4), True),
      (''glm-4.7'', Finite 50, Finite (1 / 8), True)]"

section \<open>Properties of the retry executor\<close>

lemma schedule_attemptEvents: "schedule b k = attemptEvents b 0 k"
  by (induction k) (simp_all add: attemptEvents_def backoffDelay_def)

lemma attemptEvents_step:
  "a < k \<Longrightarrow> attemptEvents b a k = backoffDelay b a @ [Attempt a] @ attemptEvents b (Suc a) k"
  by (simp add: attemptEvents_def upt_conv_Cons del: upt_Suc)

lemma attemptEvents_single: "attemptEvents b k k = backoffDelay b k @ [Attempt k]"
  by (simp add: attemptEvents_def)

lemma withRetry_loop_stop:
  assumes "a \<le> k" and "int k \<le> mr"
    and "\<forall>j. a \<le> j \<and> j < k \<longrightarrow> retryableFailure fn j"
    and "stopsAt fn mr k"
  shows "withRetry_loop fn mr b a le = (attemptEvents b a k, resultAt fn k)"
  using assms
proof (induction "k - a" arbitrary: a le)
  case 0
  then have ak: "a = k" by simp
  from "0.prems" show ?case
    unfolding ak
    by (subst withRetry_loop.simps)
       (auto simp: stopsAt_def resultAt_def attemptEvents_single split: sum.splits)
next
  case (Suc n)
  then have lt: "a < k" by simp
  have rf: "retryableFailure fn a" using Suc.prems lt by simp
  then obtain e where e: "fn a = Inl e" "isRetryableError e"
    by (auto simp: retryableFailure_def split: sum.splits)
  have ne: "int a \<noteq> mr" using lt Suc.prems by simp
  have le': "int a \<le> mr" using lt Suc.prems by simp
  have IH: "withRetry_loop fn mr b (Suc a) (Some e) = (attemptEvents b (Suc a) k, resultAt fn k)"
    using Suc.hyps(1)[of "Suc a" "Some e"] Suc.hyps(2) Suc.prems lt by auto
  show ?case
    by (subst withRetry_loop.simps) (simp add: e ne le' IH attemptEvents_step[OF lt])
qed

lemma exists_stop:
  assumes "int a \<le> mr"
  shows "\<exists>k. a \<le> k \<and> int k \<le> mr \<and> (\<forall>j. a \<le> j \<and> j < k \<longrightarrow> retryableFailure fn j) \<and> stopsAt fn mr k"
proof -
  let ?P = "\<lambda>k. a \<le> k \<and> stopsAt fn mr k"
  have "?P (nat mr)" using assms by (auto simp: stopsAt_def split: sum.splits)
  then have ex: "\<exists>k. ?P k" by blast
  define k where "k = (LEAST k. ?P k)"
  have Pk: "?P k" unfolding k_def using ex by (rule LeastI_ex)
  have least: "\<And>j. ?P j \<Longrightarrow> k \<le> j" unfolding k_def by (rule Least_le)
  have "k \<le> nat mr" using least[OF \<open>?P (nat mr)\<close>] .
  then have kmr: "int k \<le> mr" using assms by linarith
  have "\<forall>j. a \<le> j \<and> j < k \<longrightarrow> retryableFailure fn j"
  proof (intro allI impI)
    fix j assume j: "a \<le> j \<and> j < k"
    then have "\<not> ?P j" using least[of j] by auto
    then have ns: "\<not> stopsAt fn mr j" using j by simp
    then show "retryableFailure fn j"
      by (auto simp: stopsAt_def retryableFailure_def split: sum.splits)
  qed
  with Pk kmr show ?thesis by blast
qed

lemma withRetry_stop:
  assumes "int k \<le> maxRetriesOf opts"
    and "\<forall>j<k. retryableFailure fn j"
    and "stopsAt fn (maxRetriesOf opts) k"
  shows "withRetry fn opts = (schedule (baseDelayMsOf opts) k, resultAt fn k)"
  unfolding withRetry_def schedule_attemptEvents
  by (rule withRetry_loop_stop) (use assms in auto)

lemma delays_schedule: "delays (schedule b k) = map (\<lambda>i. b * 2 ^ i) [0..<k]"
  by (induction k) (simp_all add: delays_def)

lemma attempts_schedule: "attempts (schedule b k) = [0..<Suc k]"
  by (induction k) (simp_all add: attempts_def)

text \<open>
  Claim C3, as amended. For every call of \<open>withRetry\<close> with the options \<open>maxRetries\<close> and
  \<open>baseDelayMs\<close> of the caller, \<open>maxRetries\<close> not negative, the trace is a schedule: attempt
  0 runs at once, and each later attempt \<open>i\<close> up to \<open>maxRetries\<close> comes right after a wait
  of \<open>baseDelayMs * 2^(i-1)\<close>. When every attempt fails with a retryable error, all
  attempts \<open>0..maxRetries\<close> are made and the error of the last one is thrown. An option
  that the caller leaves out is 3 for \<open>maxRetries\<close> and 1000 for \<open>baseDelayMs\<close>; with both
  left out the waits are 1000, 2000 and 4000 ms, 7000 ms in all.
\<close>

theorem withRetry_backoff_schedule:
  "(0 \<le> maxRetries \<longrightarrow>
      (\<exists>k. int k \<le> maxRetries
         \<and> fst (withRetry fn \<lparr>opt_maxRetries = Some maxRetries,
                                 opt_baseDelayMs = Some baseDelayMs\<rparr>)
             = schedule baseDelayMs k))
   \<and> (0 \<le> maxRetries \<and> (\<forall>j. int j \<le> maxRetries \<longrightarrow> retryableFailure fn j) \<longrightarrow>
        fst (withRetry fn \<lparr>opt_maxRetries = Some maxRetries,
                              opt_baseDelayMs = Some baseDelayMs\<rparr>)
          = schedule baseDelayMs (nat maxRetries)
      \<and> delays (fst (withRetry fn \<lparr>opt_maxRetries = Some maxRetries,
                                       opt_baseDelayMs = Some baseDelayMs\<rparr>))
          = map (\<lambda>i. baseDelayMs * 2 ^ i) [0..<nat maxRetries]
      \<and> attempts (fst (withRetry fn \<lparr>opt_maxRetries = Some maxRetries,
                                         opt_baseDelayMs = Some baseDelayMs\<rparr>))
          = [0..<Suc (nat maxRetries)]
      \<and> snd (withRetry fn \<lparr>opt_maxRetries = Some maxRetries,
                              opt_baseDelayMs = Some baseDelayMs\<rparr>)
          = resultAt fn (nat maxRetries))
   \<and> withRetry fn \<lparr>opt_maxRetries = None, opt_baseDelayMs = baseDelayOption\<rparr>
       = withRetry fn \<lparr>opt_maxRetries = Some 3, opt_baseDelayMs = baseDelayOption\<rparr>
   \<and> withRetry fn \<lparr>opt_maxRetries = maxRetriesOption, opt_baseDelayMs = None\<rparr>
       = withRetry fn \<lparr>opt_maxRetries = maxRetriesOption, opt_baseDelayMs = Some 1000\<rparr>
   \<and> ((\<forall>j\<le>3. retryableFailure fn j) \<longrightarrow>
        delays (fst (withRetry fn defaultOptions)) = [1000, 2000, 4000]
      \<and> sum_list (delays (fst (withRetry fn defaultOptions))) = 7000
      \<and> attempts (fst (withRetry fn defaultOptions)) = [0, 1, 2, 3]
      \<and> snd (withRetry fn defaultOptions) = resultAt fn 3)"
proof -
  let ?o = "\<lparr>opt_maxRetries = Some maxRetries, opt_baseDelayMs = Some baseDelayMs\<rparr>"
  have mr: "maxRetriesOf ?o = maxRetries" and b: "baseDelayMsOf ?o = baseDelayMs"
    by (simp_all add: maxRetriesOf_def baseDelayMsOf_def)
  have A: "0 \<le> maxRetries \<longrightarrow>
      (\<exists>k. int k \<le> maxRetries \<and> fst (withRetry fn ?o) = schedule baseDelayMs k)"
  proof
    assume "0 \<le> maxRetries"
    then have "int 0 \<le> maxRetries" by simp
    from exists_stop[OF this, of fn]
    obtain k where k: "int k \<le> maxRetries" "\<forall>j<k. retryableFailure fn j"
      "stopsAt fn maxRetries k" by auto
    from withRetry_stop[of k ?o fn, unfolded mr b, OF k]
    have "fst (withRetry fn ?o) = schedule baseDelayMs k" by simp
    with k(1) show "\<exists>k. int k \<le> maxRetries \<and> fst (withRetry fn ?o) = schedule baseDelayMs k"
      by blast
  qed
  have B: "0 \<le> maxRetries \<and> (\<forall>j. int j \<le> maxRetries \<longrightarrow> retryableFailure fn j) \<longrightarrow>
        fst (withRetry fn ?o) = schedule baseDelayMs (nat maxRetries)
      \<and> delays (fst (withRetry fn ?o)) = map (\<lambda>i. baseDelayMs * 2 ^ i) [0..<nat maxRetries]
      \<and> attempts (fst (withRetry fn ?o)) = [0..<Suc (nat maxRetries)]
      \<and> snd (withRetry fn ?o) = resultAt fn (nat maxRetries)"
  proof
    assume h: "0 \<le> maxRetries \<and> (\<forall>j. int j \<le> maxRetries \<longrightarrow> retryableFailure fn j)"
    let ?n = "nat maxRetries"
    have n: "int ?n \<le> maxRetries" using h by simp
    have before: "\<forall>j<?n. retryableFailure fn j" using h by auto
    have "retryableFailure fn ?n" using h n by blast
    then have stop: "stopsAt fn maxRetries ?n"
      using h by (auto simp: stopsAt_def retryableFailure_def split: sum.splits)
    note eq = withRetry_stop[of ?n ?o fn, unfolded mr b, OF n before stop]
    show "fst (withRetry fn ?o) = schedule baseDelayMs ?n
      \<and> delays (fst (withRetry fn ?o)) = map (\<lambda>i. baseDelayMs * 2 ^ i) [0..<?n]
      \<and> attempts (fst (withRetry fn ?o)) = [0..<Suc ?n]
      \<and> snd (withRetry fn ?o) = resultAt fn ?n"
      by (simp add: eq delays_schedule attempts_schedule del: upt_Suc)
  qed
  have C: "withRetry fn \<lparr>opt_maxRetries = None, opt_baseDelayMs = baseDelayOption\<rparr>
       = withRetry fn \<lparr>opt_maxRetries = Some 3, opt_baseDelayMs = baseDelayOption\<rparr>"
    by (simp add: withRetry_def maxRetriesOf_def baseDelayMsOf_def)
  have D: "withRetry fn \<lparr>opt_maxRetries = maxRetriesOption, opt_baseDelayMs = None\<rparr>
       = withRetry fn \<lparr>opt_maxRetries = maxRetriesOption, opt_baseDelayMs = Some 1000\<rparr>"
    by (simp add: withRetry_def maxRetriesOf_def baseDelayMsOf_def)
  have E: "(\<forall>j\<le>3. retryableFailure fn j) \<longrightarrow>
        delays (fst (withRetry fn defaultOptions)) = [1000, 2000, 4000]
      \<and> sum_list (delays (fst (withRetry fn defaultOptions))) = 7000
      \<and> attempts (fst (withRetry fn defaultOptions)) = [0, 1, 2, 3]
      \<and> snd (withRetry fn defaultOptions) = resultAt fn 3"
  proof
    assume all: "\<forall>j\<le>3. retryableFailure fn j"
    have mr3: "maxRetriesOf defaultOptions = 3" and b3: "baseDelayMsOf defaultOptions = 1000"
      by (simp_all add: maxRetriesOf_def baseDelayMsOf_def defaultOptions_def)
    have n: "int 3 \<le> maxRetriesOf defaultOptions" by (simp add: mr3)
    have before: "\<forall>j<3. retryableFailure fn j" using all by auto
    have "retryableFailure fn 3" using all by blast
    then have stop: "stopsAt fn (maxRetriesOf defaultOptions) 3"
      by (auto simp: stopsAt_def retryableFailure_def mr3 split: sum.splits)
    note eq = withRetry_stop[OF n before stop, unfolded b3]
    have sch: "schedule 1000 3
        = [Attempt 0, Delay 1000, Attempt 1, Delay 2000, Attempt 2, Delay 4000, Attempt 3]"
      by (simp add: eval_nat_numeral)
    show "delays (fst (withRetry fn defaultOptions)) = [1000, 2000, 4000]
      \<and> sum_list (delays (fst (withRetry fn defaultOptions))) = 7000
      \<and> attempts (fst (withRetry fn defaultOptions)) = [0, 1, 2, 3]
      \<and> snd (withRetry fn defaultOptions) = resultAt fn 3"
      by (simp add: eq sch delays_def attempts_def)
  qed
  from A B C D E show ?thesis by (intro conjI)
qed

text \<open>
  A function that is rate limited at every call, with two retries and a base delay of 500
  ms, and with the defaults.
\<close>

theorem withRetry_backoff_schedule_witness:
  "0 \<le> (2 :: int)
   \<and> withRetry (alwaysFails rateLimitError) \<lparr>opt_maxRetries = Some 2, opt_baseDelayMs = Some 500\<rparr>
       = ([Attempt 0, Delay 500, Attempt 1, Delay 1000, Attempt 2], Threw rateLimitError)
   \<and> withRetry (alwaysFails rateLimitError) defaultOptions
       = ([Attempt 0, Delay 1000, Attempt 1, Delay 2000, Attempt 2, Delay 4000, Attempt 3],
          Threw rateLimitError)
   \<and> sum_list (delays (fst (withRetry (alwaysFails rateLimitError) defaultOptions))) = 7000"
proof -
  let ?f = "alwaysFails rateLimitError"
  let ?o = "\<lparr>opt_maxRetries = Some 2, opt_baseDelayMs = Some 500\<rparr>"
  have r: "\<And>j. retryableFailure ?f j"
    by (simp add: retryableFailure_def alwaysFails_def isRetryableError_def rateLimitError_def)
  note t = withRetry_backoff_schedule[of 2 ?f 500 None None]
  have h: "0 \<le> (2 :: int) \<and> (\<forall>j. int j \<le> 2 \<longrightarrow> retryableFailure ?f j)" using r by simp
  note tB = t[THEN conjunct2, THEN conjunct1, THEN mp, OF h]
  have sch2: "schedule 500 2 = [Attempt 0, Delay 500, Attempt 1, Delay 1000, Attempt 2]"
    by (simp add: eval_nat_numeral)
  have res: "\<And>k. resultAt ?f k = Threw rateLimitError"
    by (simp add: resultAt_def alwaysFails_def)
  have A: "withRetry ?f ?o
      = ([Attempt 0, Delay 500, Attempt 1, Delay 1000, Attempt 2], Threw rateLimitError)"
    using tB[THEN conjunct1] tB[THEN conjunct2, THEN conjunct2, THEN conjunct2]
    by (simp add: prod_eq_iff sch2 res)
  have d: "defaultOptions = \<lparr>opt_maxRetries = None, opt_baseDelayMs = None\<rparr>"
    by (simp add: defaultOptions_def)
  have h3: "\<forall>j\<le>3. retryableFailure ?f j" using r by simp
  note tE = t[THEN conjunct2, THEN conjunct2, THEN conjunct2, THEN conjunct2, THEN mp, OF h3]
  have dl: "delays (fst (withRetry ?f defaultOptions)) = [1000, 2000, 4000]"
    and sm: "sum_list (delays (fst (withRetry ?f defaultOptions))) = 7000"
    and at: "attempts (fst (withRetry ?f defaultOptions)) = [0, 1, 2, 3]"
    and sn: "snd (withRetry ?f defaultOptions) = Threw rateLimitError"
    using tE by (simp_all add: res)
  note t3 = withRetry_backoff_schedule[of 3 ?f 1000 None None]
  have h3': "0 \<le> (3 :: int) \<and> (\<forall>j. int j \<le> 3 \<longrightarrow> retryableFailure ?f j)" using r by simp
  have sch3: "schedule 1000 3
      = [Attempt 0, Delay 1000, Attempt 1, Delay 2000, Attempt 2, Delay 4000, Attempt 3]"
    by (simp add: eval_nat_numeral)
  have "fst (withRetry ?f \<lparr>opt_maxRetries = Some 3, opt_baseDelayMs = Some 1000\<rparr>)
      = schedule 1000 (nat 3)"
    using t3[THEN conjunct2, THEN conjunct1, THEN mp, OF h3'] by (rule conjunct1)
  moreover have "withRetry ?f defaultOptions
      = withRetry ?f \<lparr>opt_maxRetries = Some 3, opt_baseDelayMs = Some 1000\<rparr>"
    unfolding d
    using t3[THEN conjunct2, THEN conjunct2, THEN conjunct1]
      withRetry_backoff_schedule[of 3 ?f 1000 None "Some 3",
        THEN conjunct2, THEN conjunct2, THEN conjunct2, THEN conjunct1]
    by simp
  ultimately have B: "withRetry ?f defaultOptions
      = ([Attempt 0, Delay 1000, Attempt 1, Delay 2000, Attempt 2, Delay 4000, Attempt 3],
         Threw rateLimitError)"
    using sn by (simp add: prod_eq_iff sch3)
  from A B sm show ?thesis by simp
qed

text \<open>
  Against claim C3 as stated: with \<open>maxRetries = -1\<close> the loop body never runs. No attempt
  is made, not even attempt 0, also on a function that would succeed, and the call throws
  the initial value of \<open>lastError\<close>, which is \<open>undefined\<close>.
\<close>

theorem withRetry_negative_maxRetries_counterexample:
  "withRetry (\<lambda>attempt. Inr True) \<lparr>opt_maxRetries = Some (- 1), opt_baseDelayMs = None\<rparr>
     = ([], ThrewUndefined)
   \<and> attempts (fst (withRetry (\<lambda>attempt. Inr True)
                      \<lparr>opt_maxRetries = Some (- 1), opt_baseDelayMs = None\<rparr>)) = []"
  by (simp add: withRetry_def maxRetriesOf_def baseDelayMsOf_def attempts_def
      withRetry_loop.simps[of _ "- 1"])

lemma isRetryableError_classes:
  "isRetryableError e \<longleftrightarrow> signalsRateLimit e \<or> signalsOverload e \<or> signalsNetworkFailure e"
  by (cases "err_code e")
     (auto simp: isRetryableError_def signalsRateLimit_def signalsOverload_def
        signalsNetworkFailure_def networkCodes_def)

text \<open>
  Claim C4. \<open>isRetryableError\<close> holds exactly for the failures that signal rate limiting,
  service overload or one of the four network conditions. When the first call fails with a
  failure that is not retryable, \<open>withRetry\<close> makes that one attempt, waits for no timer and
  throws the failure; a failure that is not retryable at a later attempt \<open>k\<close> ends the run
  there as well, with no attempt or wait after it.
\<close>

theorem nonretryable_fails_at_once:
  "(isRetryableError e \<longleftrightarrow> signalsRateLimit e \<or> signalsOverload e \<or> signalsNetworkFailure e)
   \<and> (0 \<le> maxRetriesOf opts \<and> fn 0 = Inl e \<and> \<not> isRetryableError e \<longrightarrow>
        withRetry fn opts = ([Attempt 0], Threw e)
        \<and> attempts (fst (withRetry fn opts)) = [0]
        \<and> delays (fst (withRetry fn opts)) = [])
   \<and> (int k \<le> maxRetriesOf opts \<and> (\<forall>j<k. retryableFailure fn j) \<and> fn k = Inl e
        \<and> \<not> isRetryableError e \<longrightarrow>
        withRetry fn opts = (schedule (baseDelayMsOf opts) k, Threw e))"
proof (intro conjI impI)
  show "isRetryableError e \<longleftrightarrow> signalsRateLimit e \<or> signalsOverload e \<or> signalsNetworkFailure e"
    by (rule isRetryableError_classes)
next
  assume a: "0 \<le> maxRetriesOf opts \<and> fn 0 = Inl e \<and> \<not> isRetryableError e"
  then have stop: "stopsAt fn (maxRetriesOf opts) 0" by (simp add: stopsAt_def)
  have w: "withRetry fn opts = (schedule (baseDelayMsOf opts) 0, resultAt fn 0)"
    by (rule withRetry_stop) (use a stop in auto)
  then show w': "withRetry fn opts = ([Attempt 0], Threw e)"
    using a by (simp add: resultAt_def)
  show "attempts (fst (withRetry fn opts)) = [0]" by (simp add: w' attempts_def)
  show "delays (fst (withRetry fn opts)) = []" by (simp add: w' delays_def)
next
  assume a: "int k \<le> maxRetriesOf opts \<and> (\<forall>j<k. retryableFailure fn j) \<and> fn k = Inl e
        \<and> \<not> isRetryableError e"
  then have stop: "stopsAt fn (maxRetriesOf opts) k" by (simp add: stopsAt_def)
  have "withRetry fn opts = (schedule (baseDelayMsOf opts) k, resultAt fn k)"
    by (rule withRetry_stop) (use a stop in auto)
  then show "withRetry fn opts = (schedule (baseDelayMsOf opts) k, Threw e)"
    using a by (simp add: resultAt_def)
qed

text \<open>An authentication failure (HTTP 401) under the default options.\<close>

theorem nonretryable_fails_at_once_witness:
  "0 \<le> maxRetriesOf defaultOptions
   \<and> alwaysFails authenticationError 0 = Inl authenticationError
   \<and> \<not> isRetryableError authenticationError
   \<and> withRetry (alwaysFails authenticationError) defaultOptions
       = ([Attempt 0], Threw authenticationError)
   \<and> delays (fst (withRetry (alwaysFails authenticationError) defaultOptions)) = []"
proof -
  have h: "0 \<le> maxRetriesOf defaultOptions"
    by (simp add: maxRetriesOf_def defaultOptions_def)
  have f: "alwaysFails authenticationError 0 = Inl authenticationError"
    by (simp add: alwaysFails_def)
  have n: "\<not> isRetryableError authenticationError"
    by (simp add: isRetryableError_def authenticationError_def)
  from nonretryable_fails_at_once[of authenticationError defaultOptions
      "alwaysFails authenticationError" 0] h f n
  have "withRetry (alwaysFails authenticationError) defaultOptions
       = ([Attempt 0], Threw authenticationError)"
    and "delays (fst (withRetry (alwaysFails authenticationError) defaultOptions)) = []"
    by blast+
  with h f n show ?thesis by simp
qed

text \<open>
  Claim C5, as amended. When every attempt up to the last allowed one fails with a retryable
  error, \<open>withRetry\<close> throws the error of the last attempt itself: there is no separate
  exhaustion signal. When \<open>escalateModel\<close> is asked with the reason \<open>api_error\<close> for a model
  that has no fallback, it throws an \<open>Error\<close> whose message names the current model and
  whose cause is not set.
\<close>

theorem exhausted_rethrows_last_error:
  "(0 \<le> maxRetriesOf opts \<and> (\<forall>j. int j \<le> maxRetriesOf opts \<longrightarrow> retryableFailure fn j) \<longrightarrow>
      (\<exists>e. fn (nat (maxRetriesOf opts)) = Inl e \<and> isRetryableError e
           \<and> snd (withRetry fn opts) = Threw e))
   \<and> (fallbackEdge currentModel = None \<longrightarrow>
        escalateModel currentModel ''api_error''
          = Inl \<lparr>js_message = ''No fallback available for '' @ currentModel, js_cause = None\<rparr>)"
proof (intro conjI impI)
  assume a: "0 \<le> maxRetriesOf opts \<and> (\<forall>j. int j \<le> maxRetriesOf opts \<longrightarrow> retryableFailure fn j)"
  let ?n = "nat (maxRetriesOf opts)"
  have n: "int ?n \<le> maxRetriesOf opts" using a by simp
  have before: "\<forall>j<?n. retryableFailure fn j" using a by auto
  have last: "retryableFailure fn ?n" using a n by blast
  then obtain e where e: "fn ?n = Inl e" "isRetryableError e"
    by (auto simp: retryableFailure_def split: sum.splits)
  have stop: "stopsAt fn (maxRetriesOf opts) ?n"
    using a e by (simp add: stopsAt_def)
  have "withRetry fn opts = (schedule (baseDelayMsOf opts) ?n, resultAt fn ?n)"
    by (rule withRetry_stop[OF n before stop])
  then have "snd (withRetry fn opts) = Threw e" by (simp add: resultAt_def e)
  with e show "\<exists>e. fn ?n = Inl e \<and> isRetryableError e \<and> snd (withRetry fn opts) = Threw e"
    by blast
next
  assume "fallbackEdge currentModel = None"
  then show "escalateModel currentModel ''api_error''
          = Inl \<lparr>js_message = ''No fallback available for '' @ currentModel, js_cause = None\<rparr>"
    by (auto simp: fallbackEdge_def escalateModel_def split: option.splits sum.splits)
qed

lemma withRetry_alwaysFails_default:
  assumes "isRetryableError e"
  shows "withRetry (alwaysFails e) defaultOptions = (schedule 1000 3, Threw e)"
proof -
  have mr: "maxRetriesOf defaultOptions = 3" and b: "baseDelayMsOf defaultOptions = 1000"
    by (simp_all add: maxRetriesOf_def baseDelayMsOf_def defaultOptions_def)
  have "withRetry (alwaysFails e) defaultOptions
      = (schedule (baseDelayMsOf defaultOptions) 3, resultAt (alwaysFails e) 3)"
    by (rule withRetry_stop)
       (use assms in \<open>auto simp: mr retryableFailure_def stopsAt_def alwaysFails_def\<close>)
  then show ?thesis by (simp add: b resultAt_def alwaysFails_def)
qed

text \<open>A connection reset at every call, and the fallback asked at \<open>deepseek-v3\<close>.\<close>

theorem exhausted_rethrows_last_error_witness:
  "0 \<le> maxRetriesOf defaultOptions
   \<and> snd (withRetry (alwaysFails connectionResetError) defaultOptions) = Threw connectionResetError
   \<and> fallbackEdge ''deepseek-v3'' = None
   \<and> escalateModel ''deepseek-v3'' ''api_error''
       = Inl \<lparr>js_message = ''No fallback available for deepseek-v3'', js_cause = None\<rparr>"
proof -
  have mr: "maxRetriesOf defaultOptions = 3"
    by (simp add: maxRetriesOf_def defaultOptions_def)
  have h: "0 \<le> maxRetriesOf defaultOptions" by (simp add: mr)
  have r: "\<And>j. retryableFailure (alwaysFails connectionResetError) j"
    by (simp add: retryableFailure_def alwaysFails_def isRetryableError_def
        connectionResetError_def networkCodes_def)
  have fe: "fallbackEdge ''deepseek-v3'' = None"
    by (simp add: fallbackEdge_def escalateModel_def downgradeMap_def)
  from exhausted_rethrows_last_error[of defaultOptions "alwaysFails connectionResetError"
      "''deepseek-v3''"] h r fe
  have "\<exists>e. alwaysFails connectionResetError (nat (maxRetriesOf defaultOptions)) = Inl e
          \<and> isRetryableError e
          \<and> snd (withRetry (alwaysFails connectionResetError) defaultOptions) = Threw e"
    and E: "escalateModel ''deepseek-v3'' ''api_error''
       = Inl \<lparr>js_message = ''No fallback available for '' @ ''deepseek-v3'', js_cause = None\<rparr>"
    by blast+
  then have "snd (withRetry (alwaysFails connectionResetError) defaultOptions)
      = Threw connectionResetError"
    by (auto simp: alwaysFails_def)
  with h fe E show ?thesis by simp
qed

text \<open>
  Against claim C5 as stated: after four overloaded attempts the value thrown is the
  overloaded error of the call itself, and the error thrown at \<open>claude-code\<close> has no cause.
\<close>

theorem no_exhaustion_signal_counterexample:
  "isRetryableError overloadedError
   \<and> snd (withRetry (alwaysFails overloadedError) defaultOptions) = Threw overloadedError
   \<and> escalateModel ''claude-code'' ''api_error''
       = Inl \<lparr>js_message = ''No fallback available for claude-code'', js_cause = None\<rparr>"
proof -
  have r: "isRetryableError overloadedError"
    by (simp add: isRetryableError_def overloadedError_def)
  show ?thesis
    using r withRetry_alwaysFails_default[OF r]
    by (simp add: escalateModel_def downgradeMap_def)
qed

section \<open>Properties of the fallback chain\<close>

lemma fallbackEdge_values:
  "fallbackEdge ''claude-opus-4.6'' = Some ''claude-sonnet-4''"
  "fallbackEdge ''claude-sonnet-4'' = Some ''glm-4.7''"
  "fallbackEdge ''glm-4.7'' = Some ''deepseek-v3''"
  "fallbackEdge ''deepseek-v3'' = None"
  "fallbackEdge ''claude-code'' = None"
  by (simp_all add: fallbackEdge_def escalateModel_def downgradeMap_def)

lemma hops_claude_code:
  "fallbackHops n ''claude-code'' = (if n = 0 then Some ''claude-code'' else None)"
  by (cases n) (simp_all add: fallbackEdge_values)

lemma hops_deepseek:
  "fallbackHops n ''deepseek-v3'' = (if n = 0 then Some ''deepseek-v3'' else None)"
  by (cases n) (simp_all add: fallbackEdge_values)

lemma hops_glm:
  "fallbackHops n ''glm-4.7'' =
     (if n = 0 then Some ''glm-4.7'' else if n = 1 then Some ''deepseek-v3'' else None)"
  by (cases n) (simp_all add: fallbackEdge_values hops_deepseek)

lemma hops_sonnet:
  "fallbackHops n ''claude-sonnet-4'' =
     (if n = 0 then Some ''claude-sonnet-4'' else if n = 1 then Some ''glm-4.7''
      else if n = 2 then Some ''deepseek-v3'' else None)"
  by (cases n) (auto simp: fallbackEdge_values hops_glm)

lemma hops_opus:
  "fallbackHops n ''claude-opus-4.6'' =
     (if n = 0 then Some ''claude-opus-4.6'' else if n = 1 then Some ''claude-sonnet-4''
      else if n = 2 then Some ''glm-4.7'' else if n = 3 then Some ''deepseek-v3'' else None)"
  by (cases n) (auto simp: fallbackEdge_values hops_sonnet)

lemma modelNames_cases:
  "m \<in> set modelNames \<longleftrightarrow> m = ''claude-code'' \<or> m = ''deepseek-v3'' \<or> m = ''glm-4.7''
     \<or> m = ''claude-sonnet-4'' \<or> m = ''claude-opus-4.6''"
  by (simp add: modelNames_def levelMap_def)

lemma getModelLevel_values:
  "getModelLevel ''claude-code'' = Some L1"
  "getModelLevel ''deepseek-v3'' = Some L2"
  "getModelLevel ''glm-4.7'' = Some L3"
  "getModelLevel ''claude-sonnet-4'' = Some L4"
  "getModelLevel ''claude-opus-4.6'' = Some L5"
  "getModelLevel ''claude-opus'' = None"
  by (simp_all add: getModelLevel_def levelMap_def)

lemma modelNames_elim:
  assumes "m \<in> set modelNames"
  obtains "m = ''claude-code''" | "m = ''deepseek-v3''" | "m = ''glm-4.7''"
    | "m = ''claude-sonnet-4''" | "m = ''claude-opus-4.6''"
proof -
  from assms have "m = ''claude-code'' \<or> m = ''deepseek-v3'' \<or> m = ''glm-4.7''
     \<or> m = ''claude-sonnet-4'' \<or> m = ''claude-opus-4.6''"
    by (simp add: modelNames_cases)
  then show ?thesis
  proof (elim disjE)
    assume "m = ''claude-code''" then show ?thesis by (rule that(1))
  next
    assume "m = ''deepseek-v3''" then show ?thesis by (rule that(2))
  next
    assume "m = ''glm-4.7''" then show ?thesis by (rule that(3))
  next
    assume "m = ''claude-sonnet-4''" then show ?thesis by (rule that(4))
  next
    assume "m = ''claude-opus-4.6''" then show ?thesis by (rule that(5))
  qed
qed

lemma fallback_reaches_terminal:
  assumes "m \<in> set modelNames"
  shows "\<exists>n\<le>3. \<exists>t. fallbackHops n m = Some t \<and> fallbackEdge t = None
                 \<and> (getModelLevel t = Some L1 \<or> getModelLevel t = Some L2)"
  using assms
proof (cases rule: modelNames_elim)
  case 1
  have "fallbackHops 0 m = Some ''claude-code''" by (simp add: 1)
  then show ?thesis
    by (intro exI[of _ 0] exI[of _ "''claude-code''"])
       (simp add: fallbackEdge_values getModelLevel_values)
next
  case 2
  have "fallbackHops 0 m = Some ''deepseek-v3''" by (simp add: 2)
  then show ?thesis
    by (intro exI[of _ 0] exI[of _ "''deepseek-v3''"])
       (simp add: fallbackEdge_values getModelLevel_values)
next
  case 3
  have "fallbackHops 1 m = Some ''deepseek-v3''" by (simp add: 3 hops_glm)
  then show ?thesis
    by (intro exI[of _ 1] exI[of _ "''deepseek-v3''"])
       (simp add: fallbackEdge_values getModelLevel_values)
next
  case 4
  have "fallbackHops 2 m = Some ''deepseek-v3''" by (simp add: 4 hops_sonnet)
  then show ?thesis
    by (intro exI[of _ 2] exI[of _ "''deepseek-v3''"])
       (simp add: fallbackEdge_values getModelLevel_values)
next
  case 5
  have "fallbackHops 3 m = Some ''deepseek-v3''" by (simp add: 5 hops_opus)
  then show ?thesis
    by (intro exI[of _ 3] exI[of _ "''deepseek-v3''"])
       (simp add: fallbackEdge_values getModelLevel_values)
qed

lemma fallback_no_cycle:
  assumes "m \<in> set modelNames"
  shows "fallbackHops (Suc n) m \<noteq> Some m"
  using assms
  by (cases rule: modelNames_elim)
     (simp_all add: hops_claude_code hops_deepseek hops_glm hops_sonnet hops_opus)

lemma fallback_never_claude_code:
  assumes "m \<in> set modelNames" and "m \<noteq> ''claude-code''"
  shows "fallbackHops n m \<noteq> Some ''claude-code''"
  using assms
  by (cases rule: modelNames_elim)
     (simp_all add: hops_deepseek hops_glm hops_sonnet hops_opus)

lemma fallback_terminals:
  "{m \<in> set modelNames. fallbackEdge m = None} = {''deepseek-v3'', ''claude-code''}"
proof (rule set_eqI)
  fix m
  show "m \<in> {m \<in> set modelNames. fallbackEdge m = None} \<longleftrightarrow> m \<in> {''deepseek-v3'', ''claude-code''}"
  proof
    assume "m \<in> {m \<in> set modelNames. fallbackEdge m = None}"
    then have m: "m \<in> set modelNames" and e: "fallbackEdge m = None" by simp_all
    from m e show "m \<in> {''deepseek-v3'', ''claude-code''}"
      by (cases rule: modelNames_elim) (simp_all add: fallbackEdge_values)
  next
    assume "m \<in> {''deepseek-v3'', ''claude-code''}"
    then have "m = ''deepseek-v3'' \<or> m = ''claude-code''" by simp
    then show "m \<in> {m \<in> set modelNames. fallbackEdge m = None}"
      by (elim disjE) (simp_all add: modelNames_cases fallbackEdge_values)
  qed
qed

text \<open>
  Claim C2, as amended. From each of the five models, repeated fallback reaches a model with
  no fallback successor in at most 3 hops and never comes back to its start. The chain is
  \<open>claude-opus-4.6\<close> (L5), \<open>claude-sonnet-4\<close> (L4), \<open>glm-4.7\<close> (L3), \<open>deepseek-v3\<close> (L2), where
  it ends; \<open>claude-code\<close> (L1) has no successor either and is reached from no other model.
  The models without successor are exactly \<open>deepseek-v3\<close> and \<open>claude-code\<close>. The table
  \<open>FALLBACK_CHAIN\<close> of the retry module ends at \<open>deepseek\<close> as well.
\<close>

theorem fallback_chain_ends_at_L2:
  "(\<forall>m \<in> set modelNames.
       (\<exists>n\<le>3. \<exists>t. fallbackHops n m = Some t \<and> fallbackEdge t = None
                 \<and> (getModelLevel t = Some L1 \<or> getModelLevel t = Some L2))
     \<and> (\<forall>n. fallbackHops (Suc n) m \<noteq> Some m)
     \<and> (\<forall>n. m \<noteq> ''claude-code'' \<longrightarrow> fallbackHops n m \<noteq> Some ''claude-code''))
   \<and> fallbackEdge ''claude-opus-4.6'' = Some ''claude-sonnet-4''
   \<and> fallbackEdge ''claude-sonnet-4'' = Some ''glm-4.7''
   \<and> fallbackEdge ''glm-4.7'' = Some ''deepseek-v3''
   \<and> fallbackEdge ''deepseek-v3'' = None
   \<and> fallbackEdge ''claude-code'' = None
   \<and> {m \<in> set modelNames. fallbackEdge m = None} = {''deepseek-v3'', ''claude-code''}
   \<and> map_of FALLBACK_CHAIN ''deepseek'' = Some None"
proof (intro conjI ballI allI impI)
  fix m assume "m \<in> set modelNames"
  then show "\<exists>n\<le>3. \<exists>t. fallbackHops n m = Some t \<and> fallbackEdge t = None
                 \<and> (getModelLevel t = Some L1 \<or> getModelLevel t = Some L2)"
    by (rule fallback_reaches_terminal)
next
  fix m n assume "m \<in> set modelNames"
  then show "fallbackHops (Suc n) m \<noteq> Some m" by (rule fallback_no_cycle)
next
  fix m n assume "m \<in> set modelNames" and "m \<noteq> ''claude-code''"
  then show "fallbackHops n m \<noteq> Some ''claude-code''" by (rule fallback_never_claude_code)
next
  show "{m \<in> set modelNames. fallbackEdge m = None} = {''deepseek-v3'', ''claude-code''}"
    by (rule fallback_terminals)
next
  show "map_of FALLBACK_CHAIN ''deepseek'' = Some None"
    by (simp add: FALLBACK_CHAIN_def)
qed (simp_all add: fallbackEdge_values)

text \<open>The chain from \<open>claude-opus-4.6\<close>.\<close>

theorem fallback_chain_ends_at_L2_witness:
  "''claude-opus-4.6'' \<in> set modelNames
   \<and> fallbackHops 3 ''claude-opus-4.6'' = Some ''deepseek-v3''
   \<and> fallbackEdge ''deepseek-v3'' = None
   \<and> fallbackHops 4 ''claude-opus-4.6'' \<noteq> Some ''claude-opus-4.6''
   \<and> fallbackHops 4 ''claude-opus-4.6'' \<noteq> Some ''claude-code''"
proof -
  have m: "''claude-opus-4.6'' \<in> set modelNames"
    by (simp add: modelNames_def levelMap_def)
  have ne: "''claude-opus-4.6'' \<noteq> ''claude-code''" by simp
  note t = fallback_chain_ends_at_L2
  from t have "\<forall>m \<in> set modelNames.
       (\<exists>n\<le>3. \<exists>t. fallbackHops n m = Some t \<and> fallbackEdge t = None
                 \<and> (getModelLevel t = Some L1 \<or> getModelLevel t = Some L2))
     \<and> (\<forall>n. fallbackHops (Suc n) m \<noteq> Some m)
     \<and> (\<forall>n. m \<noteq> ''claude-code'' \<longrightarrow> fallbackHops n m \<noteq> Some ''claude-code'')"
    by (rule conjunct1)
  from this m have c:
    "(\<exists>n\<le>3. \<exists>t. fallbackHops n ''claude-opus-4.6'' = Some t \<and> fallbackEdge t = None
                 \<and> (getModelLevel t = Some L1 \<or> getModelLevel t = Some L2))
     \<and> (\<forall>n. fallbackHops (Suc n) ''claude-opus-4.6'' \<noteq> Some ''claude-opus-4.6'')
     \<and> (\<forall>n. ''claude-opus-4.6'' \<noteq> ''claude-code''
            \<longrightarrow> fallbackHops n ''claude-opus-4.6'' \<noteq> Some ''claude-code'')"
    by (rule bspec)
  from c have c2: "\<forall>n. fallbackHops (Suc n) ''claude-opus-4.6'' \<noteq> Some ''claude-opus-4.6''"
    by (elim conjE)
  from c have c3: "\<forall>n. ''claude-opus-4.6'' \<noteq> ''claude-code''
            \<longrightarrow> fallbackHops n ''claude-opus-4.6'' \<noteq> Some ''claude-code''"
    by (elim conjE)
  from c2 have a: "fallbackHops (Suc 3) ''claude-opus-4.6'' \<noteq> Some ''claude-opus-4.6''"
    by (rule spec)
  from c3 have "''claude-opus-4.6'' \<noteq> ''claude-code''
            \<longrightarrow> fallbackHops 4 ''claude-opus-4.6'' \<noteq> Some ''claude-code''"
    by (rule spec)
  from this ne have b: "fallbackHops 4 ''claude-opus-4.6'' \<noteq> Some ''claude-code''"
    by (rule mp)
  have s4: "Suc 3 = 4" by simp
  from t have e: "fallbackEdge ''deepseek-v3'' = None" by (elim conjE)
  have h3: "fallbackHops 3 ''claude-opus-4.6'' = Some ''deepseek-v3''"
    by (simp add: eval_nat_numeral fallbackEdge_def escalateModel_def downgradeMap_def)
  from a have a': "fallbackHops 4 ''claude-opus-4.6'' \<noteq> Some ''claude-opus-4.6''"
    unfolding s4 .
  from m h3 e a' b show ?thesis by (intro conjI)
qed

text \<open>
  Against claim C2 as stated: the hops from L5 end at \<open>deepseek-v3\<close> (L2), which has no
  successor; the fourth hop does not exist and L1 is not reached.
\<close>

theorem fallback_stops_before_L1_counterexample:
  "fallbackHops 0 ''claude-opus-4.6'' = Some ''claude-opus-4.6''
   \<and> fallbackHops 1 ''claude-opus-4.6'' = Some ''claude-sonnet-4''
   \<and> fallbackHops 2 ''claude-opus-4.6'' = Some ''glm-4.7''
   \<and> fallbackHops 3 ''claude-opus-4.6'' = Some ''deepseek-v3''
   \<and> fallbackHops 4 ''claude-opus-4.6'' = None
   \<and> getModelLevel ''deepseek-v3'' = Some L2
   \<and> fallbackEdge ''deepseek-v3'' = None"
  by (simp add: eval_nat_numeral fallbackEdge_def escalateModel_def downgradeMap_def
      getModelLevel_def levelMap_def)

section \<open>Properties of the model selection\<close>

lemma getComplexityLevel_cases:
  "getComplexityLevel score = ''claude-code'' \<or> getComplexityLevel score = ''deepseek-v3''
   \<or> getComplexityLevel score = ''glm-4.7'' \<or> getComplexityLevel score = ''claude-sonnet-4''
   \<or> getComplexityLevel score = ''claude-opus-4.6''"
  by (simp add: getComplexityLevel_def)

lemma emergencyModelFor_values:
  "emergencyModelFor ''claude-opus-4.6'' = ''glm-4.7''"
  "emergencyModelFor ''claude-sonnet-4'' = ''glm-4.7''"
  "emergencyModelFor ''glm-4.7'' = ''glm-4.7''"
  "emergencyModelFor ''deepseek-v3'' = ''deepseek-v3''"
  "emergencyModelFor ''claude-code'' = ''claude-code''"
  by (simp_all add: emergencyModelFor_def emergencyMap_def)

lemma emergency_level:
  "\<exists>t. getModelLevel (getComplexityLevel score) = Some t
     \<and> getModelLevel (emergencyModelFor (getComplexityLevel score)) = Some (emergencyTier t)"
  using getComplexityLevel_cases[of score]
  by (elim disjE) (simp_all add: emergencyModelFor_values getModelLevel_values)

text \<open>
  Claim C6. In emergency mode the model selected for a base model is given by the map
  \<open>claude-opus-4.6\<close> and \<open>claude-sonnet-4\<close> to \<open>glm-4.7\<close>, the other three to themselves: on
  tiers, L5 and L4 become L3 and L3, L2, L1 stay. This is what \<open>selectEmergencyModel\<close>
  returns for every message, in the router and in the lightweight router, and what the
  selection returns when the emergency flag is enabled.
\<close>

theorem emergency_downgrade_map:
  "emergencyModelFor ''claude-opus-4.6'' = ''glm-4.7''
   \<and> emergencyModelFor ''claude-sonnet-4'' = ''glm-4.7''
   \<and> emergencyModelFor ''glm-4.7'' = ''glm-4.7''
   \<and> emergencyModelFor ''deepseek-v3'' = ''deepseek-v3''
   \<and> emergencyModelFor ''claude-code'' = ''claude-code''
   \<and> sel_model (selectEmergencyModel thresholds message)
       = emergencyModelFor (complexity (analyzeComplexity thresholds message))
   \<and> selectOptimalModel_cost True thresholds message
       = emergencyModelFor (complexity (analyzeComplexity thresholds message))
   \<and> sel_model (lw_selectModel True message)
       = emergencyModelFor (lw_complexity (lw_analyzeComplexity message))
   \<and> (\<exists>t. getModelLevel (complexity (analyzeComplexity thresholds message)) = Some t
          \<and> getModelLevel (sel_model (selectEmergencyModel thresholds message))
              = Some (emergencyTier t))
   \<and> (\<exists>t. getModelLevel (lw_complexity (lw_analyzeComplexity message)) = Some t
          \<and> getModelLevel (sel_model (lw_selectModel True message)) = Some (emergencyTier t))
   \<and> emergencyTier L5 = L3 \<and> emergencyTier L4 = L3 \<and> emergencyTier L3 = L3
   \<and> emergencyTier L2 = L2 \<and> emergencyTier L1 = L1"
proof -
  have a: "sel_model (selectEmergencyModel thresholds message)
       = emergencyModelFor (complexity (analyzeComplexity thresholds message))"
    by (simp add: selectEmergencyModel_def Let_def)
  have b: "sel_model (lw_selectModel True message)
       = emergencyModelFor (lw_complexity (lw_analyzeComplexity message))"
    by (simp add: lw_selectModel_def lw_selectEmergencyModel_def Let_def)
  have c: "complexity (analyzeComplexity thresholds message)
       = getComplexityLevel (totalScore (analyzeComplexity thresholds message))"
    by (simp add: analyzeComplexity_def Let_def)
  have d: "lw_complexity (lw_analyzeComplexity message)
       = getComplexityLevel (of_int (lw_totalScore (lw_analyzeComplexity message)))"
    by (simp add: lw_analyzeComplexity_def Let_def)
  have e: "\<exists>t. getModelLevel (complexity (analyzeComplexity thresholds message)) = Some t
          \<and> getModelLevel (sel_model (selectEmergencyModel thresholds message))
              = Some (emergencyTier t)"
    unfolding a c by (rule emergency_level)
  have f: "\<exists>t. getModelLevel (lw_complexity (lw_analyzeComplexity message)) = Some t
          \<and> getModelLevel (sel_model (lw_selectModel True message)) = Some (emergencyTier t)"
    unfolding b d by (rule emergency_level)
  have g: "selectOptimalModel_cost True thresholds message
       = emergencyModelFor (complexity (analyzeComplexity thresholds message))"
    by (simp add: selectOptimalModel_cost_def a)
  show ?thesis
    by (intro conjI a b e f g emergencyModelFor_values) simp_all
qed





text \<open>
  The method \<open>adjustForEmotion\<close>, which the selection does not call, keeps a model name
  among the five for the night hours and a tired mood; for a stressed mood at another time
  of day it returns the name \<open>claude-opus\<close>, which is none of the five (the top model is
  \<open>claude-opus-4.6\<close>).
\<close>

lemma adjustForEmotion_values:
  "timeOfDay emo = ''night'' \<or> userMood emo = ''tired'' \<Longrightarrow> m \<in> set modelNames \<Longrightarrow>
     adjustForEmotion m emo \<in> set modelNames"
  "timeOfDay emo \<noteq> ''night'' \<Longrightarrow> userMood emo = ''stressed'' \<Longrightarrow>
     adjustForEmotion m emo = ''claude-opus'' \<and> ''claude-opus'' \<notin> set modelNames"
  by (auto simp: adjustForEmotion_def modelNames_cases)

section \<open>Properties of the complexity classification\<close>

lemma startsWith_replicate:
  "k \<noteq> c \<Longrightarrow> \<not> startsWith (replicate n c) (k # ks)"
  by (cases n) simp_all

lemma js_includes_replicate:
  "k \<noteq> c \<Longrightarrow> \<not> js_includes (replicate n c) (k # ks)"
  by (induction n) (simp_all add: startsWith_replicate[of k c "Suc _", simplified])

lemma lw_foldl_no_match:
  "filter (\<lambda>(level, keywords). list_ex (js_includes message) keywords) ps = [] \<Longrightarrow>
   foldl (\<lambda>score (level, keywords).
            if list_ex (js_includes message) keywords then max score level else score) acc ps = acc"
  by (induction ps arbitrary: acc) (auto split: if_splits)

lemma lw_keywordScore_no_match:
  "lw_keywordMatches message = [] \<Longrightarrow> lw_keywordScore message = 0"
  unfolding lw_keywordMatches_def lw_keywordScore_def by (rule lw_foldl_no_match)

text \<open>
  Claim C8, as amended. In \<open>ModelRouter.analyzeComplexity\<close> the length bonus is
  \<open>min(length / 200, 3)\<close>, added to the scores of the matched indicators: a text of 1200
  characters with no matched indicator scores 3 and is given \<open>deepseek-v3\<close> (L2). The bonus
  of +2 above 500 characters and +2 more above 1000 is that of
  \<open>LightweightRouter.analyzeComplexity\<close>, where a text of 1200 characters with no keyword
  scores 4 and is given \<open>deepseek-v3\<close> (L2) too.
\<close>

theorem length_bonus_rules:
  "lengthBonus (analyzeComplexity thresholds message) = min (rat_of_nat (length message) / 200) 3
   \<and> totalScore (analyzeComplexity thresholds message)
       = sum_list (map mi_score (matchedIndicators thresholds message))
         + min (rat_of_nat (length message) / 200) 3
   \<and> (matchedIndicators thresholds message = [] \<and> length message = 1200 \<longrightarrow>
        totalScore (analyzeComplexity thresholds message) = 3
        \<and> complexity (analyzeComplexity thresholds message) = ''deepseek-v3''
        \<and> getModelLevel (complexity (analyzeComplexity thresholds message)) = Some L2)
   \<and> lw_totalScore (lw_analyzeComplexity message)
       = lw_keywordScore message + (if length message > 500 then 2 else 0)
         + (if length message > 1000 then 2 else 0)
   \<and> (lw_keywordMatches message = [] \<and> length message = 1200 \<longrightarrow>
        lw_totalScore (lw_analyzeComplexity message) = 4
        \<and> lw_complexity (lw_analyzeComplexity message) = ''deepseek-v3''
        \<and> getModelLevel (lw_complexity (lw_analyzeComplexity message)) = Some L2)"
proof (intro conjI impI)
  show "lengthBonus (analyzeComplexity thresholds message) = min (rat_of_nat (length message) / 200) 3"
    by (simp add: analyzeComplexity_def Let_def)
  show "totalScore (analyzeComplexity thresholds message)
       = sum_list (map mi_score (matchedIndicators thresholds message))
         + min (rat_of_nat (length message) / 200) 3"
    by (simp add: analyzeComplexity_def Let_def)
  show "lw_totalScore (lw_analyzeComplexity message)
       = lw_keywordScore message + (if length message > 500 then 2 else 0)
         + (if length message > 1000 then 2 else 0)"
    by (simp add: lw_analyzeComplexity_def Let_def)
next
  assume a: "matchedIndicators thresholds message = [] \<and> length message = 1200"
  then have t: "totalScore (analyzeComplexity thresholds message) = 3"
    by (simp add: analyzeComplexity_def Let_def)
  have c: "complexity (analyzeComplexity thresholds message)
      = getComplexityLevel (totalScore (analyzeComplexity thresholds message))"
    by (simp add: analyzeComplexity_def Let_def)
  show "totalScore (analyzeComplexity thresholds message) = 3" by (rule t)
  show c': "complexity (analyzeComplexity thresholds message) = ''deepseek-v3''"
    unfolding c t by (simp add: getComplexityLevel_def)
  show "getModelLevel (complexity (analyzeComplexity thresholds message)) = Some L2"
    unfolding c' by (simp add: getModelLevel_values)
next
  assume a: "lw_keywordMatches message = [] \<and> length message = 1200"
  then have k: "lw_keywordScore message = 0" by (simp add: lw_keywordScore_no_match)
  show t: "lw_totalScore (lw_analyzeComplexity message) = 4"
    using a by (simp add: lw_analyzeComplexity_def Let_def k)
  have c: "lw_complexity (lw_analyzeComplexity message)
      = getComplexityLevel (of_int (lw_totalScore (lw_analyzeComplexity message)))"
    by (simp add: lw_analyzeComplexity_def Let_def)
  show c': "lw_complexity (lw_analyzeComplexity message) = ''deepseek-v3''"
    unfolding c t by (simp add: getComplexityLevel_def)
  show "getModelLevel (lw_complexity (lw_analyzeComplexity message)) = Some L2"
    unfolding c' by (simp add: getModelLevel_values)
qed

text \<open>A text of letters \<open>a\<close> matches no indicator of the example and no keyword.\<close>

lemma plainText_no_indicator: "matchedIndicators exampleThresholds (plainText n) = []"
  by (simp add: matchedIndicators_def exampleThresholds_def containsIndicator_def patterns_def
      regexTest_def plainText_def js_includes_replicate
      ind_abstractConcept_def ind_emotionAnalysis_def ind_longTextGeneration_def
      ind_valueJudgement_def ind_creativeThinking_def ind_complexReasoning_def
      ind_scheduleAdjustment_def ind_mailHandling_def ind_apiOperation_def
      ind_factExtraction_def ind_shortSummary_def ind_simpleQuestion_def)

lemma plainText_no_keyword: "lw_keywordMatches (plainText n) = []"
  by (simp add: lw_keywordMatches_def lw_patterns_def plainText_def js_includes_replicate)

theorem length_bonus_rules_witness:
  "matchedIndicators exampleThresholds (plainText 1200) = []
   \<and> lw_keywordMatches (plainText 1200) = []
   \<and> length (plainText 1200) = 1200
   \<and> totalScore (analyzeComplexity exampleThresholds (plainText 1200)) = 3
   \<and> complexity (analyzeComplexity exampleThresholds (plainText 1200)) = ''deepseek-v3''
   \<and> lw_totalScore (lw_analyzeComplexity (plainText 1200)) = 4
   \<and> lw_complexity (lw_analyzeComplexity (plainText 1200)) = ''deepseek-v3''"
proof -
  have l: "length (plainText 1200) = 1200" by (simp add: plainText_def)
  note t = length_bonus_rules[of exampleThresholds "plainText 1200"]
  from t plainText_no_indicator[of 1200] l
  have a: "totalScore (analyzeComplexity exampleThresholds (plainText 1200)) = 3"
    and b: "complexity (analyzeComplexity exampleThresholds (plainText 1200)) = ''deepseek-v3''"
    by simp_all
  from t plainText_no_keyword[of 1200] l
  have c: "lw_totalScore (lw_analyzeComplexity (plainText 1200)) = 4"
    and d: "lw_complexity (lw_analyzeComplexity (plainText 1200)) = ''deepseek-v3''"
    by simp_all
  from plainText_no_indicator[of 1200] plainText_no_keyword[of 1200] l a b c d
  show ?thesis by (intro conjI)
qed

text \<open>
  Against claim C8 as stated, on \<open>ModelRouter.analyzeComplexity\<close>: 1200 characters without
  a match score 3, not 4; the bonus of 600 characters is 3, not 2, and 100 characters
  already have a bonus of one half.
\<close>

theorem router_length_bonus_counterexample:
  "matchedIndicators exampleThresholds (plainText 1200) = []
   \<and> length (plainText 1200) = 1200
   \<and> totalScore (analyzeComplexity exampleThresholds (plainText 1200)) = 3
   \<and> length (plainText 600) = 600
   \<and> lengthBonus (analyzeComplexity exampleThresholds (plainText 600)) = 3
   \<and> length (plainText 100) = 100
   \<and> lengthBonus (analyzeComplexity exampleThresholds (plainText 100)) = 1 / 2"
  by (simp add: plainText_no_indicator analyzeComplexity_def Let_def)
     (simp add: plainText_def)

section \<open>Properties of the budget monitors\<close>

subsection \<open>Double arithmetic\<close>

lemma bitLength_0: "bitLength 0 = 0"
  by (subst bitLength.simps) simp

lemma bitLength_numeral: "bitLength (numeral k) = Suc (bitLength (numeral k div 2))"
  by (subst bitLength.simps) simp

lemma bitLength_Suc_0: "bitLength (Suc 0) = 1"
  by (subst bitLength.simps) (simp add: bitLength_0)

lemma floor_rat_numeral: "\<lfloor>numeral a / numeral b :: rat\<rfloor> = numeral a div numeral b"
  by (metis floor_divide_of_int_eq of_int_numeral)

lemma floor_rat_one: "\<lfloor>1 / numeral b :: rat\<rfloor> = 1 div numeral b"
  by (metis floor_divide_of_int_eq of_int_1 of_int_numeral)

lemmas double_eval =
  roundToDouble_def roundMagnitude_def exponentOf_def roundHalfEven_def quantum_def Let_def
  bitLength_0 bitLength_numeral bitLength_Suc_0 floor_rat_numeral floor_rat_one

lemma d0_7_value: "d0_7 = Finite (3152519739159347 / 4503599627370496)"
  by (simp add: d0_7_def double_eval)

lemma d0_9_value: "d0_9 = Finite (8106479329266893 / 9007199254740992)"
  by (simp add: d0_9_def double_eval)

text \<open>
  Two sums as they come out in double arithmetic: \<open>0.1 + 0.2\<close> is \<open>0.30000000000000004\<close>,
  the double above the double \<open>0.3\<close>, and \<open>0.04 + 4.46\<close> is exactly \<open>4.5\<close>.
\<close>

lemma double_examples:
  "js_add (roundToDouble (1 / 10)) (roundToDouble (2 / 10))
     = Finite (5404319552844596 / 18014398509481984)"
  "roundToDouble (3 / 10) = Finite (5404319552844595 / 18014398509481984)"
  "js_add (roundToDouble (4 / 100)) (roundToDouble (446 / 100)) = Finite (9 / 2)"
  by (simp_all add: double_eval)

text \<open>
  At the boundary of a threshold: with the budget 5, the cost \<open>3.4999999999999996\<close> gives
  the fraction \<open>0.7\<close>, which reaches the threshold; with the budget 9, the cost \<open>8.1\<close>
  gives a fraction below the double \<open>0.9\<close>. The waits of the retry executor with the
  default base delay, and their sum, are the integers of the exact product.
\<close>

lemma boundary_examples:
  "js_ge (js_div (Finite belowThreePointFive) (Finite 5)) d0_7"
  "\<not> js_ge (js_div (roundToDouble (81 / 10)) (Finite 9)) d0_9"
  by (simp_all add: d0_7_def d0_9_def double_eval belowThreePointFive_def)

lemma default_delays:
  "js_mul (Finite 1000) (roundToDouble (2 ^ 0)) = Finite 1000"
  "js_mul (Finite 1000) (roundToDouble (2 ^ 1)) = Finite 2000"
  "js_mul (Finite 1000) (roundToDouble (2 ^ 2)) = Finite 4000"
  "js_add (js_add (Finite 1000) (Finite 2000)) (Finite 4000) = Finite 7000"
  by (simp_all add: double_eval)

lemma thresholds_order:
  "js_ge d0_9 d0_9" "js_ge d0_7 d0_7" "\<not> js_ge d0_7 d0_9" "js_ge d0_9 d0_7" "d0_7 \<noteq> d0_9"
  by (simp_all add: d0_7_value d0_9_value)

lemma js_ge_trans: "js_ge a b \<Longrightarrow> js_ge b c \<Longrightarrow> js_ge a c"
  by (cases a; cases b; cases c) simp_all

lemma js_lt_not_ge: "js_lt a b \<Longrightarrow> \<not> js_ge a b"
  by (cases a; cases b) simp_all

lemma double_of_small:
  "roundToDouble 3 = Finite 3" "roundToDouble (7 / 2) = Finite (7 / 2)"
  "roundToDouble (9 / 2) = Finite (9 / 2)" "roundToDouble (19 / 4) = Finite (19 / 4)"
  "roundToDouble 1 = Finite 1" "roundToDouble 4 = Finite 4"
  "roundToDouble (15 / 4) = Finite (15 / 4)" "roundToDouble (39 / 8) = Finite (39 / 8)"
  "roundToDouble (3 / 4) = Finite (3 / 4)" "roundToDouble (11 / 4) = Finite (11 / 4)"
  "roundToDouble belowThreePointFive = Finite belowThreePointFive"
  by (simp_all add: double_eval belowThreePointFive_def)

lemma fractions_of_five:
  "roundToDouble (3 / 5) = Finite (5404319552844595 / 9007199254740992)"
  "roundToDouble (7 / 10) = d0_7"
  "roundToDouble (9 / 10) = d0_9"
  "roundToDouble (19 / 20) = Finite (4278419646001971 / 4503599627370496)"
  "roundToDouble (1 / 5) = Finite (3602879701896397 / 18014398509481984)"
  "roundToDouble (belowThreePointFive / 5) = d0_7"
  by (simp_all add: d0_7_def d0_9_def double_eval belowThreePointFive_def)

subsection \<open>LightweightMonitor, call by call\<close>

lemma lm_trackUsage_accumulated:
  "lm_trackUsage today cost tokens s = checkThresholds (lm_accumulated today cost tokens s)"
  by (simp add: lm_trackUsage_def lm_accumulated_def Let_def)

lemma lm_accumulated_fields:
  "lm_alertTriggered (lm_accumulated today cost tokens s) = triggeredBefore today s"
  "lm_alertThresholds (lm_accumulated today cost tokens s) = lm_alertThresholds s"
  "lm_dailyBudget (lm_accumulated today cost tokens s) = lm_dailyBudget s"
  "du_date (lm_dailyUsage (lm_accumulated today cost tokens s)) = today"
  "du_totalCost (lm_dailyUsage (lm_accumulated today cost tokens s))
     = js_add (if du_date (lm_dailyUsage s) \<noteq> today then Finite 0
               else du_totalCost (lm_dailyUsage s)) cost"
  "global_emergencyMode (lm_accumulated today cost tokens s)
     = (if du_date (lm_dailyUsage s) \<noteq> today
        then global_emergencyMode (resetDailyUsage today s) else global_emergencyMode s)"
  by (simp_all add: lm_accumulated_def triggeredBefore_def resetDailyUsage_def Let_def)

lemma checkThresholds_loop_fired:
  "distinct ths \<Longrightarrow>
   fst (checkThresholds_loop p ths trig)
     = map (\<lambda>t. (t, p)) (filter (\<lambda>t. js_ge p t \<and> t \<notin> trig) ths)"
proof (induction ths arbitrary: trig)
  case Nil
  then show ?case by simp
next
  case (Cons t ths)
  have eq: "filter (\<lambda>u. js_ge p u \<and> u \<noteq> t \<and> u \<notin> trig) ths
      = filter (\<lambda>u. js_ge p u \<and> u \<notin> trig) ths"
    using Cons.prems by (intro filter_cong) auto
  show ?case
    using Cons.prems Cons.IH[of trig] Cons.IH[of "insert t trig"]
    by (simp add: eq case_prod_beta)
qed

lemma checkThresholds_loop_triggered:
  "snd (checkThresholds_loop p ths trig) = trig \<union> {t \<in> set ths. js_ge p t}"
proof (induction ths arbitrary: trig)
  case Nil
  then show ?case by simp
next
  case (Cons t ths)
  show ?case
    using Cons.IH[of trig] Cons.IH[of "insert t trig"]
    by (auto simp: case_prod_beta)
qed

lemma runImmediates_alerts:
  "fst (runImmediates queued s)
     = map (\<lambda>c. \<lparr>al_level = thresholdLevel (fst c), al_percentage = snd c\<rparr>) queued"
  by (induction queued arbitrary: s)
     (simp_all add: triggerAlert_def thresholdLevel_def case_prod_beta)

lemma lm_enableEmergencyMode_idem:
  "lm_enableEmergencyMode (lm_enableEmergencyMode s) = lm_enableEmergencyMode s"
  by (simp add: lm_enableEmergencyMode_def)

lemma runImmediates_state:
  "snd (runImmediates queued s)
     = (if list_ex (\<lambda>c. js_ge (fst c) d0_9) queued then lm_enableEmergencyMode s else s)"
proof (induction queued arbitrary: s)
  case Nil
  then show ?case by simp
next
  case (Cons c queued)
  show ?case
    using Cons.IH[of s] Cons.IH[of "lm_enableEmergencyMode s"]
    by (simp add: triggerAlert_def lm_enableEmergencyMode_idem case_prod_beta)
qed

lemma lm_track_unfold:
  "lm_track today (cost, tokens) s
     = runImmediates
         (fst (checkThresholds (lm_accumulated today cost tokens s)))
         (snd (checkThresholds (lm_accumulated today cost tokens s)))"
  by (simp add: lm_track_def lm_trackUsage_accumulated case_prod_beta)

lemma checkThresholds_queued:
  "distinct (lm_alertThresholds a) \<Longrightarrow>
   fst (checkThresholds a)
     = map (\<lambda>t. (t, lm_percentage a))
         (filter (\<lambda>t. js_ge (lm_percentage a) t \<and> t \<notin> lm_alertTriggered a)
            (lm_alertThresholds a))"
  by (simp add: checkThresholds_def case_prod_beta checkThresholds_loop_fired)

lemma checkThresholds_state:
  "snd (checkThresholds a)
     = a\<lparr>lm_alertTriggered :=
           lm_alertTriggered a \<union> {t \<in> set (lm_alertThresholds a). js_ge (lm_percentage a) t}\<rparr>"
  by (simp add: checkThresholds_def case_prod_beta checkThresholds_loop_triggered)

lemma lm_track_alerts:
  assumes "distinct (lm_alertThresholds s)"
  shows "fst (lm_track today (cost, tokens) s)
     = map (\<lambda>t. \<lparr>al_level = thresholdLevel t,
                  al_percentage = lm_percentage (lm_accumulated today cost tokens s)\<rparr>)
         (filter (\<lambda>t. js_ge (lm_percentage (lm_accumulated today cost tokens s)) t
                      \<and> t \<notin> triggeredBefore today s) (lm_alertThresholds s))"
proof -
  have d: "distinct (lm_alertThresholds (lm_accumulated today cost tokens s))"
    using assms by (simp add: lm_accumulated_fields)
  show ?thesis
    unfolding lm_track_unfold runImmediates_alerts checkThresholds_queued[OF d]
    by (simp add: lm_accumulated_fields comp_def)
qed

lemma lm_track_percentage:
  "lm_percentage (snd (lm_track today (cost, tokens) s))
     = lm_percentage (lm_accumulated today cost tokens s)"
  unfolding lm_track_unfold runImmediates_state checkThresholds_state
  by (simp add: lm_percentage_def lm_enableEmergencyMode_def)

lemma lm_track_triggered:
  "lm_alertTriggered (snd (lm_track today (cost, tokens) s))
     = triggeredBefore today s
       \<union> {t \<in> set (lm_alertThresholds s).
            js_ge (lm_percentage (lm_accumulated today cost tokens s)) t}"
  unfolding lm_track_unfold runImmediates_state checkThresholds_state
  by (simp add: lm_enableEmergencyMode_def lm_accumulated_fields)

lemma lm_track_frame:
  "lm_alertThresholds (snd (lm_track today (cost, tokens) s)) = lm_alertThresholds s"
  "lm_dailyBudget (snd (lm_track today (cost, tokens) s)) = lm_dailyBudget s"
  "lm_dailyUsage (snd (lm_track today (cost, tokens) s))
     = lm_dailyUsage (lm_accumulated today cost tokens s)"
  unfolding lm_track_unfold runImmediates_state checkThresholds_state
  by (simp_all add: lm_enableEmergencyMode_def lm_accumulated_fields)

lemma lm_track_emergency:
  assumes "distinct (lm_alertThresholds s)"
  shows "isEmergencyMode (global_emergencyMode (snd (lm_track today (cost, tokens) s)))
     = (isEmergencyMode (global_emergencyMode (lm_accumulated today cost tokens s))
        \<or> list_ex (\<lambda>t. js_ge t d0_9
                        \<and> js_ge (lm_percentage (lm_accumulated today cost tokens s)) t
                        \<and> t \<notin> triggeredBefore today s) (lm_alertThresholds s))"
proof -
  have d: "distinct (lm_alertThresholds (lm_accumulated today cost tokens s))"
    using assms by (simp add: lm_accumulated_fields)
  show ?thesis
    unfolding lm_track_unfold runImmediates_state checkThresholds_state
      checkThresholds_queued[OF d]
    by (auto simp: lm_enableEmergencyMode_def lm_accumulated_fields isEmergencyMode_def
        list_ex_iff)
qed

lemma lm_new_fields:
  "lm_dailyBudget (new_LightweightMonitor None today flag) = Finite 5"
  "lm_alertThresholds (new_LightweightMonitor None today flag) = [d0_7, d0_9]"
  "lm_alertTriggered (new_LightweightMonitor None today flag) = {}"
  "du_date (lm_dailyUsage (new_LightweightMonitor None today flag)) = today"
  "du_totalCost (lm_dailyUsage (new_LightweightMonitor None today flag)) = Finite 0"
  "global_emergencyMode (new_LightweightMonitor None today flag) = flag"
  by (simp_all add: new_LightweightMonitor_def budgetOrDefault_def)

lemma lm_accumulated_percentage:
  "lm_percentage (lm_accumulated today cost tokens s)
     = js_div (js_add (if du_date (lm_dailyUsage s) \<noteq> today then Finite 0
                       else du_totalCost (lm_dailyUsage s)) cost)
         (lm_dailyBudget s)"
  by (simp add: lm_percentage_def lm_accumulated_fields)

subsection \<open>CostOptimizer, call by call\<close>

lemma co_trackUsage_percentage:
  "co_percentage today (snd (co_trackUsage today modelUsed tokens cost dashboardUpdated s))
     = js_mul (js_div (js_add (co_spent today s) cost) (co_dailyBudget s)) (Finite 100)"
  by (simp add: co_trackUsage_def checkBudgetAlert_def co_percentage_def co_spent_def
      co_enableEmergencyMode_def Let_def split: option.splits)

lemma co_trackUsage_levels:
  "map al_level (fst (fst (co_trackUsage today modelUsed tokens cost dashboardUpdated s)))
     = (let p = co_percentage today
                  (snd (co_trackUsage today modelUsed tokens cost dashboardUpdated s)) in
        if js_ge p (Finite 90) then [CRITICAL] else if js_ge p (Finite 70) then [WARNING]
        else if js_ge p (Finite 50) then [INFO] else [])"
  by (simp add: co_trackUsage_def checkBudgetAlert_def co_percentage_def
      co_enableEmergencyMode_def triggerBudgetAlert_def Let_def split: option.splits)

lemma co_trackUsage_emergency:
  "co_emergencyMode (snd (co_trackUsage today modelUsed tokens cost dashboardUpdated s))
     = (if js_ge (co_percentage today
                    (snd (co_trackUsage today modelUsed tokens cost dashboardUpdated s)))
             (Finite 90)
        then Some \<lparr>em_enabled = True, em_allowedLevels = [L1, L2, L3]\<rparr>
        else co_emergencyMode s)"
  by (simp add: co_trackUsage_def checkBudgetAlert_def co_percentage_def
      co_enableEmergencyMode_def Let_def split: option.splits)

lemma co_trackUsage_completion:
  "snd (fst (co_trackUsage today modelUsed tokens cost dashboardUpdated s))
     = (if js_ge (co_percentage today
                    (snd (co_trackUsage today modelUsed tokens cost dashboardUpdated s)))
             (Finite 90) \<and> \<not> dashboardUpdated
        then Rejected else Resolved)"
  by (simp add: co_trackUsage_def checkBudgetAlert_def co_percentage_def
      co_enableEmergencyMode_def Let_def split: option.splits)

lemma co_spent_trackUsage:
  "co_spent today (snd (co_trackUsage today modelUsed tokens cost dashboardUpdated s))
     = js_add (co_spent today s) cost"
  by (simp add: co_trackUsage_def checkBudgetAlert_def co_spent_def
      co_enableEmergencyMode_def Let_def split: option.splits)

lemma co_budget_trackUsage:
  "co_dailyBudget (snd (co_trackUsage today modelUsed tokens cost dashboardUpdated s))
     = co_dailyBudget s"
  by (simp add: co_trackUsage_def checkBudgetAlert_def
      co_enableEmergencyMode_def Let_def split: option.splits)

lemma co_percentage_spent:
  "co_daily s date \<noteq> None \<Longrightarrow>
   co_percentage date s = js_mul (js_div (co_spent date s) (co_dailyBudget s)) (Finite 100)"
  by (auto simp: co_percentage_def co_spent_def split: option.splits)

lemma co_new_fields:
  "co_spent date (new_CostOptimizer None) = Finite 0"
  "co_dailyBudget (new_CostOptimizer None) = Finite 5"
  "co_emergencyMode (new_CostOptimizer None) = None"
  by (simp_all add: co_spent_def new_CostOptimizer_def budgetOrDefault_def)

lemma countLevel_Nil: "countLevel level [] = 0"
  by (simp add: countLevel_def)

lemma countLevel_Cons:
  "countLevel level (as # ass)
     = length (filter (\<lambda>l. l = level) (map al_level as)) + countLevel level ass"
  by (simp add: countLevel_def filter_map comp_def)

lemma info_band:
  assumes "js_ge p (Finite 50)" and "js_lt p (Finite 70)"
  shows "\<not> js_ge p (Finite 90)" and "\<not> js_ge p (Finite 70)"
proof -
  show b: "\<not> js_ge p (Finite 70)" using assms(2) by (rule js_lt_not_ge)
  have "js_ge (Finite 90) (Finite 70)" by simp
  then show "\<not> js_ge p (Finite 90)" using b js_ge_trans by blast
qed

lemma co_run_Cons:
  "fst (co_run today ((modelUsed, tokens, cost, dashboardUpdated) # rest) s)
     = fst (fst (co_trackUsage today modelUsed tokens cost dashboardUpdated s))
       # fst (co_run today rest (snd (co_trackUsage today modelUsed tokens cost dashboardUpdated s)))"
  "co_percentages today ((modelUsed, tokens, cost, dashboardUpdated) # rest) s
     = co_percentage today (snd (co_trackUsage today modelUsed tokens cost dashboardUpdated s))
       # co_percentages today rest
           (snd (co_trackUsage today modelUsed tokens cost dashboardUpdated s))"
  by (simp_all add: case_prod_beta)

lemma co_run_Nil: "fst (co_run today [] s) = []"
  by simp

lemma co_run_info_count:
  "countLevel INFO (fst (co_run today calls s))
     = length (filter (\<lambda>p. js_ge p (Finite 50) \<and> js_lt p (Finite 70))
                 (co_percentages today calls s))"
proof (induction calls arbitrary: s)
  case Nil
  then show ?case by (simp add: countLevel_def)
next
  case (Cons c calls)
  obtain modelUsed tokens cost dashboardUpdated
    where c: "c = (modelUsed, tokens, cost, dashboardUpdated)" by (cases c)
  let ?r = "co_trackUsage today modelUsed tokens cost dashboardUpdated s"
  let ?p = "co_percentage today (snd ?r)"
  have one: "length (filter (\<lambda>l. l = INFO) (map al_level (fst (fst ?r))))
      = (if js_ge ?p (Finite 50) \<and> js_lt ?p (Finite 70) then 1 else 0)"
  proof (cases "js_ge ?p (Finite 50) \<and> js_lt ?p (Finite 70)")
    case True
    then show ?thesis
      using info_band[of ?p] by (simp add: co_trackUsage_levels Let_def)
  next
    case False
    have "js_ge ?p (Finite 50) \<Longrightarrow> \<not> js_ge ?p (Finite 70) \<Longrightarrow> js_lt ?p (Finite 70)"
      by (cases ?p) simp_all
    with False show ?thesis
      by (auto simp: co_trackUsage_levels Let_def)
  qed
  show ?case
    unfolding c co_run_Cons countLevel_Cons one Cons.IH
    by simp
qed

text \<open>
  Claim C10, as amended. In \<open>CostOptimizer\<close>, every call of \<open>trackUsage\<close> after which the
  budget percentage that the code computes, \<open>(totalCost / dailyBudget) * 100\<close> in double
  arithmetic on the cost it has added up for the date, is at least 50 and below 70,
  triggers one alert of level INFO, leaves the emergency flag as it was, and is resolved.
  The alert does not depend on what was triggered before: over a sequence of calls there
  are as many INFO alerts as calls that end in that band.
\<close>

theorem cost_optimizer_info_alert:
  "(js_ge (co_percentage today
             (snd (co_trackUsage today modelUsed tokens cost dashboardUpdated s))) (Finite 50)
      \<and> js_lt (co_percentage today
                 (snd (co_trackUsage today modelUsed tokens cost dashboardUpdated s))) (Finite 70)
      \<longrightarrow>
      map al_level (fst (fst (co_trackUsage today modelUsed tokens cost dashboardUpdated s)))
        = [INFO]
      \<and> snd (fst (co_trackUsage today modelUsed tokens cost dashboardUpdated s)) = Resolved
      \<and> co_emergencyMode (snd (co_trackUsage today modelUsed tokens cost dashboardUpdated s))
          = co_emergencyMode s)
   \<and> co_percentage today (snd (co_trackUsage today modelUsed tokens cost dashboardUpdated s))
       = js_mul (js_div (js_add (co_spent today s) cost) (co_dailyBudget s)) (Finite 100)
   \<and> countLevel INFO (fst (co_run today calls s))
       = length (filter (\<lambda>p. js_ge p (Finite 50) \<and> js_lt p (Finite 70))
                   (co_percentages today calls s))"
proof (intro conjI impI)
  let ?r = "co_trackUsage today modelUsed tokens cost dashboardUpdated s"
  assume a: "js_ge (co_percentage today (snd ?r)) (Finite 50)
      \<and> js_lt (co_percentage today (snd ?r)) (Finite 70)"
  from a have g: "js_ge (co_percentage today (snd ?r)) (Finite 50)"
    and l: "js_lt (co_percentage today (snd ?r)) (Finite 70)" by simp_all
  note nb = info_band[OF g l]
  show "map al_level (fst (fst ?r)) = [INFO]"
    using g nb by (simp add: co_trackUsage_levels Let_def)
  show "snd (fst ?r) = Resolved"
    using nb by (simp add: co_trackUsage_completion)
  show "co_emergencyMode (snd ?r) = co_emergencyMode s"
    using nb by (simp add: co_trackUsage_emergency)
next
  show "co_percentage today (snd (co_trackUsage today modelUsed tokens cost dashboardUpdated s))
       = js_mul (js_div (js_add (co_spent today s) cost) (co_dailyBudget s)) (Finite 100)"
    by (rule co_trackUsage_percentage)
  show "countLevel INFO (fst (co_run today calls s))
       = length (filter (\<lambda>p. js_ge p (Finite 50) \<and> js_lt p (Finite 70))
                   (co_percentages today calls s))"
    by (rule co_run_info_count)
qed

lemma percentages_of_five:
  "js_mul (js_div (Finite 3) (Finite 5)) (Finite 100) = Finite 60"
  "js_mul (js_div (Finite (13 / 4)) (Finite 5)) (Finite 100) = Finite 65"
  "js_mul (js_div (Finite (15 / 4)) (Finite 5)) (Finite 100) = Finite 75"
  "js_mul (js_div (Finite 4) (Finite 5)) (Finite 100) = Finite 80"
  "js_mul (js_div (Finite (19 / 4)) (Finite 5)) (Finite 100) = Finite 95"
  "js_mul (js_div (Finite (39 / 8)) (Finite 5)) (Finite 100) = Finite (195 / 2)"
  "js_mul (js_div (Finite belowThreePointFive) (Finite 5)) (Finite 100) = Finite 70"
  by (simp_all add: double_eval belowThreePointFive_def)

lemma sums_of_costs:
  "js_add (Finite 3) (Finite (1 / 4)) = Finite (13 / 4)"
  "js_add (Finite 0) (Finite (15 / 4)) = Finite (15 / 4)"
  "js_add (Finite (15 / 4)) (Finite (1 / 4)) = Finite 4"
  "js_add (Finite 4) (Finite (3 / 4)) = Finite (19 / 4)"
  "js_add (Finite (19 / 4)) (Finite (1 / 8)) = Finite (39 / 8)"
  "js_add (Finite 0) (Finite (19 / 4)) = Finite (19 / 4)"
  "js_add (Finite 0) (Finite belowThreePointFive) = Finite belowThreePointFive"
  "js_add (Finite 0) (Finite 3) = Finite 3"
  "js_add (Finite 3) (Finite (1 / 2)) = Finite (7 / 2)"
  "js_add (Finite (7 / 2)) (Finite 1) = Finite (9 / 2)"
  "js_add (Finite (9 / 2)) (Finite (1 / 4)) = Finite (19 / 4)"
  "js_add (Finite 0) (Finite 1) = Finite 1"
  by (simp_all add: double_eval belowThreePointFive_def)

text \<open>Two calls in a row that end at 60 and 65 percent of the default budget.\<close>

theorem cost_optimizer_info_alert_witness:
  "js_ge (co_percentage day1
            (snd (co_trackUsage day1 ''deepseek-v3'' (Finite 1200) (Finite 3) True
                    (new_CostOptimizer None)))) (Finite 50)
   \<and> js_lt (co_percentage day1
            (snd (co_trackUsage day1 ''deepseek-v3'' (Finite 1200) (Finite 3) True
                    (new_CostOptimizer None)))) (Finite 70)
   \<and> map al_level
        (fst (fst (co_trackUsage day1 ''deepseek-v3'' (Finite 1200) (Finite 3) True
                     (new_CostOptimizer None)))) = [INFO]
   \<and> co_percentages day1
        [(''deepseek-v3'', Finite 1200, Finite 3, True),
         (''deepseek-v3'', Finite 300, Finite (1 / 4), True)]
        (new_CostOptimizer None) = [Finite 60, Finite 65]
   \<and> countLevel INFO
        (fst (co_run day1
               [(''deepseek-v3'', Finite 1200, Finite 3, True),
                (''deepseek-v3'', Finite 300, Finite (1 / 4), True)]
           (new_CostOptimizer None))) = 2"
proof -
  let ?s0 = "new_CostOptimizer None"
  let ?r1 = "co_trackUsage day1 ''deepseek-v3'' (Finite 1200) (Finite 3) True ?s0"
  let ?calls = "[(''deepseek-v3'', Finite 1200, Finite 3, True),
                 (''deepseek-v3'', Finite 300, Finite (1 / 4), True)]"
  have p1: "co_percentage day1 (snd ?r1) = Finite 60"
    by (simp only: co_trackUsage_percentage co_new_fields sums_of_costs percentages_of_five)
  have ps: "co_percentages day1 ?calls ?s0 = [Finite 60, Finite 65]"
    by (simp only: co_run_Cons co_percentages.simps co_trackUsage_percentage
        co_spent_trackUsage co_budget_trackUsage co_new_fields sums_of_costs
        percentages_of_five)
  note t = cost_optimizer_info_alert[of day1 "''deepseek-v3''" "Finite 1200" "Finite 3"
      True ?s0 ?calls]
  have g: "js_ge (co_percentage day1 (snd ?r1)) (Finite 50)"
    and l: "js_lt (co_percentage day1 (snd ?r1)) (Finite 70)"
    unfolding p1 by simp_all
  from t[THEN conjunct1, rule_format, OF conjI[OF g l]]
  have l1: "map al_level (fst (fst ?r1)) = [INFO]" by (rule conjunct1)
  from t have "countLevel INFO (fst (co_run day1 ?calls ?s0))
       = length (filter (\<lambda>p. js_ge p (Finite 50) \<and> js_lt p (Finite 70))
                   (co_percentages day1 ?calls ?s0))"
    by (elim conjE)
  then have c: "countLevel INFO (fst (co_run day1 ?calls ?s0)) = 2"
    unfolding ps by simp
  from g l l1 ps c show ?thesis by (intro conjI)
qed

text \<open>
  Against claim C10 as stated. The cost 3.4999999999999996, the double just below 3.5, is
  more than 50 and less than 70 percent of the default budget of 5; the quotient by 5 rounds
  to the double 0.7 and the product by 100 to 70, so the call takes the WARNING branch.
\<close>

theorem cost_optimizer_band_edge_counterexample:
  "roundToDouble belowThreePointFive = Finite belowThreePointFive
   \<and> 50 \<le> belowThreePointFive / 5 * 100 \<and> belowThreePointFive / 5 * 100 < 70
   \<and> co_percentage day1
        (snd (co_trackUsage day1 ''glm-4.7'' (Finite 1000) (Finite belowThreePointFive) True
                (new_CostOptimizer None))) = Finite 70
   \<and> map al_level
        (fst (fst (co_trackUsage day1 ''glm-4.7'' (Finite 1000) (Finite belowThreePointFive) True
                     (new_CostOptimizer None)))) = [WARNING]"
proof -
  let ?r = "co_trackUsage day1 ''glm-4.7'' (Finite 1000) (Finite belowThreePointFive) True
      (new_CostOptimizer None)"
  have d: "roundToDouble belowThreePointFive = Finite belowThreePointFive"
    by (rule double_of_small)
  have b: "50 \<le> belowThreePointFive / 5 * 100 \<and> belowThreePointFive / 5 * 100 < 70"
    by (simp add: belowThreePointFive_def)
  have p: "co_percentage day1 (snd ?r) = Finite 70"
    by (simp only: co_trackUsage_percentage co_new_fields sums_of_costs percentages_of_five)
  have l: "map al_level (fst (fst ?r)) = [WARNING]"
    unfolding co_trackUsage_levels p by (simp add: Let_def)
  from d b p l show ?thesis by (intro conjI) simp_all
qed

text \<open>
  Against claim C1 as stated, on \<open>CostOptimizer.trackUsage\<close>: a day whose cumulative cost
  crosses 70 percent and then 90 percent of the default budget, ending its four calls at 75,
  80, 95 and 97.5 percent, triggers the WARNING alert twice and the CRITICAL alert twice.
\<close>

theorem cost_optimizer_repeats_alerts_counterexample:
  "co_percentages day1 exampleOptimizerDay (new_CostOptimizer None)
     = [Finite 75, Finite 80, Finite 95, Finite (195 / 2)]
   \<and> map (map al_level) (fst (co_run day1 exampleOptimizerDay (new_CostOptimizer None)))
       = [[WARNING], [WARNING], [CRITICAL], [CRITICAL]]
   \<and> countLevel WARNING (fst (co_run day1 exampleOptimizerDay (new_CostOptimizer None))) = 2
   \<and> countLevel CRITICAL (fst (co_run day1 exampleOptimizerDay (new_CostOptimizer None))) = 2"
proof -
  let ?s0 = "new_CostOptimizer None"
  have ps: "co_percentages day1 exampleOptimizerDay ?s0
      = [Finite 75, Finite 80, Finite 95, Finite (195 / 2)]"
    unfolding exampleOptimizerDay_def
    by (simp only: co_run_Cons co_percentages.simps co_trackUsage_percentage
        co_spent_trackUsage co_budget_trackUsage co_new_fields sums_of_costs
        percentages_of_five)
  have lv: "map (map al_level) (fst (co_run day1 exampleOptimizerDay ?s0))
      = [[WARNING], [WARNING], [CRITICAL], [CRITICAL]]"
    unfolding exampleOptimizerDay_def co_run_Cons co_run_Nil list.map
      co_trackUsage_levels co_trackUsage_percentage co_spent_trackUsage co_budget_trackUsage
      co_new_fields sums_of_costs percentages_of_five
    by (simp add: Let_def)
  have cw: "countLevel WARNING (fst (co_run day1 exampleOptimizerDay ?s0)) = 2"
    unfolding exampleOptimizerDay_def co_run_Cons co_run_Nil
      countLevel_Cons countLevel_Nil
      co_trackUsage_levels co_trackUsage_percentage co_spent_trackUsage co_budget_trackUsage
      co_new_fields sums_of_costs percentages_of_five
    by (simp add: Let_def)
  have cc: "countLevel CRITICAL (fst (co_run day1 exampleOptimizerDay ?s0)) = 2"
    unfolding exampleOptimizerDay_def co_run_Cons co_run_Nil
      countLevel_Cons countLevel_Nil
      co_trackUsage_levels co_trackUsage_percentage co_spent_trackUsage co_budget_trackUsage
      co_new_fields sums_of_costs percentages_of_five
    by (simp add: Let_def)
  from ps lv cw cc show ?thesis by (intro conjI)
qed

text \<open>
  Against claim C9 as stated, on \<open>CostOptimizer.trackUsage\<close>: a first call that ends at 95
  percent crosses both thresholds and triggers the CRITICAL alert only.
\<close>

theorem cost_optimizer_only_critical_counterexample:
  "co_percentage day1
     (snd (co_trackUsage day1 ''claude-opus-4.6'' (Finite 1000) (Finite (19 / 4)) True
             (new_CostOptimizer None))) = Finite 95
   \<and> map al_level
        (fst (fst (co_trackUsage day1 ''claude-opus-4.6'' (Finite 1000) (Finite (19 / 4)) True
                     (new_CostOptimizer None))))
       = [CRITICAL]"
proof -
  let ?r = "co_trackUsage day1 ''claude-opus-4.6'' (Finite 1000) (Finite (19 / 4)) True
      (new_CostOptimizer None)"
  have p: "co_percentage day1 (snd ?r) = Finite 95"
    by (simp only: co_trackUsage_percentage co_new_fields sums_of_costs percentages_of_five)
  have l: "map al_level (fst (fst ?r)) = [CRITICAL]"
    unfolding co_trackUsage_levels p by (simp add: Let_def)
  from p l show ?thesis by (intro conjI)
qed

subsection \<open>Thresholds that fire in one call\<close>

text \<open>
  Claim C9, as amended. In \<open>LightweightMonitor\<close>, a call of \<open>trackUsage\<close> fires, in the order
  of the threshold list, every threshold that the new budget fraction has reached and that
  was not fired before on that date, and records them as fired; the budget fraction is the
  quotient \<open>totalCost / dailyBudget\<close> that the monitor computes, and reaching is its
  comparison \<open>>=\<close>, both in double arithmetic. With the thresholds 0.7 and 0.9, an update
  that crosses both emits WARNING and then CRITICAL in that call.
  \<open>CostOptimizer.trackUsage\<close> has no threshold list: a call emits at most one alert, and
  only CRITICAL when it ends at 90 percent or more.
\<close>

theorem thresholds_fire_in_same_call:
  "(distinct (lm_alertThresholds s) \<longrightarrow>
      fst (lm_track today (cost, tokens) s)
        = map (\<lambda>t. \<lparr>al_level = thresholdLevel t,
                     al_percentage = lm_percentage (snd (lm_track today (cost, tokens) s))\<rparr>)
            (filter (\<lambda>t. js_ge (lm_percentage (snd (lm_track today (cost, tokens) s))) t
                         \<and> t \<notin> triggeredBefore today s) (lm_alertThresholds s)))
   \<and> lm_alertTriggered (snd (lm_track today (cost, tokens) s))
       = triggeredBefore today s
         \<union> {t \<in> set (lm_alertThresholds s).
              js_ge (lm_percentage (snd (lm_track today (cost, tokens) s))) t}
   \<and> lm_percentage (snd (lm_track today (cost, tokens) s))
       = js_div (js_add (if du_date (lm_dailyUsage s) \<noteq> today then Finite 0
                         else du_totalCost (lm_dailyUsage s)) cost)
           (lm_dailyBudget s)
   \<and> (lm_alertThresholds s = [d0_7, d0_9] \<and> triggeredBefore today s = {}
        \<and> js_ge (lm_percentage (snd (lm_track today (cost, tokens) s))) d0_9 \<longrightarrow>
        map al_level (fst (lm_track today (cost, tokens) s)) = [WARNING, CRITICAL])
   \<and> length (fst (fst (co_trackUsage today modelUsed tokens cost dashboardUpdated c))) \<le> 1
   \<and> (js_ge (co_percentage today
                (snd (co_trackUsage today modelUsed tokens cost dashboardUpdated c)))
          (Finite 90) \<longrightarrow>
        map al_level (fst (fst (co_trackUsage today modelUsed tokens cost dashboardUpdated c)))
          = [CRITICAL])"
proof (intro conjI impI)
  assume "distinct (lm_alertThresholds s)"
  then show "fst (lm_track today (cost, tokens) s)
        = map (\<lambda>t. \<lparr>al_level = thresholdLevel t,
                     al_percentage = lm_percentage (snd (lm_track today (cost, tokens) s))\<rparr>)
            (filter (\<lambda>t. js_ge (lm_percentage (snd (lm_track today (cost, tokens) s))) t
                         \<and> t \<notin> triggeredBefore today s) (lm_alertThresholds s))"
    unfolding lm_track_percentage by (rule lm_track_alerts)
next
  show "lm_alertTriggered (snd (lm_track today (cost, tokens) s))
       = triggeredBefore today s
         \<union> {t \<in> set (lm_alertThresholds s).
              js_ge (lm_percentage (snd (lm_track today (cost, tokens) s))) t}"
    unfolding lm_track_percentage by (rule lm_track_triggered)
next
  show "lm_percentage (snd (lm_track today (cost, tokens) s))
       = js_div (js_add (if du_date (lm_dailyUsage s) \<noteq> today then Finite 0
                         else du_totalCost (lm_dailyUsage s)) cost)
           (lm_dailyBudget s)"
    unfolding lm_track_percentage by (rule lm_accumulated_percentage)
next
  assume a: "lm_alertThresholds s = [d0_7, d0_9] \<and> triggeredBefore today s = {}
        \<and> js_ge (lm_percentage (snd (lm_track today (cost, tokens) s))) d0_9"
  then have d: "distinct (lm_alertThresholds s)" by (simp add: thresholds_order)
  from a have p: "js_ge (lm_percentage (lm_accumulated today cost tokens s)) d0_9"
    by (simp add: lm_track_percentage)
  then have p7: "js_ge (lm_percentage (lm_accumulated today cost tokens s)) d0_7"
    using thresholds_order(4) by (rule js_ge_trans)
  show "map al_level (fst (lm_track today (cost, tokens) s)) = [WARNING, CRITICAL]"
    unfolding lm_track_alerts[OF d] using a p p7
    by (simp add: thresholdLevel_def thresholds_order)
next
  have "length (map al_level
      (fst (fst (co_trackUsage today modelUsed tokens cost dashboardUpdated c)))) \<le> 1"
    unfolding co_trackUsage_levels by (simp add: Let_def)
  then show "length (fst (fst (co_trackUsage today modelUsed tokens cost dashboardUpdated c)))
      \<le> 1" by simp
next
  assume "js_ge (co_percentage today
                (snd (co_trackUsage today modelUsed tokens cost dashboardUpdated c)))
          (Finite 90)"
  then show "map al_level
      (fst (fst (co_trackUsage today modelUsed tokens cost dashboardUpdated c))) = [CRITICAL]"
    by (simp add: co_trackUsage_levels Let_def)
qed

lemma quotients_of_five:
  "js_div (Finite 3) (Finite 5) = Finite (5404319552844595 / 9007199254740992)"
  "js_div (Finite (7 / 2)) (Finite 5) = d0_7"
  "js_div (Finite (9 / 2)) (Finite 5) = d0_9"
  "js_div (Finite (19 / 4)) (Finite 5) = Finite (4278419646001971 / 4503599627370496)"
  "js_div (Finite 1) (Finite 5) = Finite (3602879701896397 / 18014398509481984)"
  "js_div (Finite belowThreePointFive) (Finite 5) = d0_7"
  by (simp_all add: fractions_of_five)

lemma quotients_order:
  "\<not> js_ge (Finite (5404319552844595 / 9007199254740992)) d0_7"
  "\<not> js_ge (Finite (5404319552844595 / 9007199254740992)) d0_9"
  "js_ge (Finite (4278419646001971 / 4503599627370496)) d0_7"
  "js_ge (Finite (4278419646001971 / 4503599627370496)) d0_9"
  "\<not> js_ge (Finite (3602879701896397 / 18014398509481984)) d0_9"
  by (simp_all add: d0_7_value d0_9_value)

text \<open>A first call of 4.75 on a new monitor with the default budget of 5.\<close>

theorem thresholds_fire_in_same_call_witness:
  "distinct (lm_alertThresholds (new_LightweightMonitor None day1 None))
   \<and> triggeredBefore day1 (new_LightweightMonitor None day1 None) = {}
   \<and> lm_percentage
        (snd (lm_track day1 (Finite (19 / 4), Finite 1000) (new_LightweightMonitor None day1 None)))
       = Finite (4278419646001971 / 4503599627370496)
   \<and> map al_level
        (fst (lm_track day1 (Finite (19 / 4), Finite 1000) (new_LightweightMonitor None day1 None)))
       = [WARNING, CRITICAL]
   \<and> lm_alertTriggered
        (snd (lm_track day1 (Finite (19 / 4), Finite 1000) (new_LightweightMonitor None day1 None)))
       = {d0_7, d0_9}"
proof -
  let ?s0 = "new_LightweightMonitor None day1 None"
  let ?r = "lm_track day1 (Finite (19 / 4), Finite 1000) ?s0"
  have d: "distinct (lm_alertThresholds ?s0)" by (simp add: lm_new_fields thresholds_order)
  have tb: "triggeredBefore day1 ?s0 = {}" by (simp add: triggeredBefore_def lm_new_fields)
  have th: "lm_alertThresholds ?s0 = [d0_7, d0_9]" by (simp add: lm_new_fields)
  note t = thresholds_fire_in_same_call[of ?s0 day1 "Finite (19 / 4)" "Finite 1000" "''glm-4.7''"
      True "new_CostOptimizer None"]
  note tB = t[THEN conjunct2, THEN conjunct1]
  note tC = t[THEN conjunct2, THEN conjunct2, THEN conjunct1]
  note tD = t[THEN conjunct2, THEN conjunct2, THEN conjunct2, THEN conjunct1]
  have p: "lm_percentage (snd ?r) = Finite (4278419646001971 / 4503599627370496)"
    unfolding tC
    by (simp only: lm_new_fields if_False simp_thms sums_of_costs quotients_of_five)
  have p9: "js_ge (lm_percentage (snd ?r)) d0_9" unfolding p by (rule quotients_order)
  have l: "map al_level (fst ?r) = [WARNING, CRITICAL]"
    by (rule tD[rule_format]) (intro conjI th tb p9)
  have f: "{t \<in> set [d0_7, d0_9]. js_ge (Finite (4278419646001971 / 4503599627370496)) t}
      = {d0_7, d0_9}"
    unfolding set_filter[symmetric] by (simp add: quotients_order)
  have tr: "lm_alertTriggered (snd ?r) = {d0_7, d0_9}"
    using tB unfolding tb th p f by simp
  from d tb p l tr show ?thesis by (intro conjI)
qed

subsection \<open>LightweightMonitor over a day\<close>

lemma lm_run_Cons:
  "fst (lm_run today (usage # rest) s)
     = fst (lm_track today usage s) # fst (lm_run today rest (snd (lm_track today usage s)))"
  "snd (lm_run today (usage # rest) s)
     = snd (lm_run today rest (snd (lm_track today usage s)))"
  by (simp_all add: case_prod_beta)

text \<open>One call on the date of the state, with the thresholds of the constructor.\<close>

lemma lm_track_default_levels:
  assumes "du_date (lm_dailyUsage s) = today" and "lm_alertThresholds s = defaultThresholds"
  shows "map al_level (fst (lm_track today (cost, tokens) s))
     = (if js_ge (js_div (js_add (du_totalCost (lm_dailyUsage s)) cost) (lm_dailyBudget s)) d0_7
           \<and> d0_7 \<notin> lm_alertTriggered s then [WARNING] else [])
       @ (if js_ge (js_div (js_add (du_totalCost (lm_dailyUsage s)) cost) (lm_dailyBudget s)) d0_9
           \<and> d0_9 \<notin> lm_alertTriggered s then [CRITICAL] else [])"
proof -
  have d: "distinct (lm_alertThresholds s)"
    using assms by (simp add: defaultThresholds_def thresholds_order)
  show ?thesis
    unfolding lm_track_alerts[OF d] lm_accumulated_percentage
    using assms
    by (simp add: defaultThresholds_def triggeredBefore_def thresholdLevel_def thresholds_order)
qed

lemma lm_track_default_triggered:
  assumes "du_date (lm_dailyUsage s) = today" and "lm_alertThresholds s = defaultThresholds"
  shows "d0_7 \<in> lm_alertTriggered (snd (lm_track today (cost, tokens) s))
       \<longleftrightarrow> d0_7 \<in> lm_alertTriggered s
           \<or> js_ge (js_div (js_add (du_totalCost (lm_dailyUsage s)) cost) (lm_dailyBudget s)) d0_7"
    and "d0_9 \<in> lm_alertTriggered (snd (lm_track today (cost, tokens) s))
       \<longleftrightarrow> d0_9 \<in> lm_alertTriggered s
           \<or> js_ge (js_div (js_add (du_totalCost (lm_dailyUsage s)) cost) (lm_dailyBudget s)) d0_9"
  unfolding lm_track_triggered lm_accumulated_percentage
  using assms thresholds_order(5)
  by (auto simp: defaultThresholds_def triggeredBefore_def)

lemma lm_track_default_emergency:
  assumes "du_date (lm_dailyUsage s) = today" and "lm_alertThresholds s = defaultThresholds"
  shows "isEmergencyMode (global_emergencyMode (snd (lm_track today (cost, tokens) s)))
     = (isEmergencyMode (global_emergencyMode s)
        \<or> (js_ge (js_div (js_add (du_totalCost (lm_dailyUsage s)) cost) (lm_dailyBudget s)) d0_9
            \<and> d0_9 \<notin> lm_alertTriggered s))"
proof -
  have d: "distinct (lm_alertThresholds s)"
    using assms by (simp add: defaultThresholds_def thresholds_order)
  show ?thesis
    unfolding lm_track_emergency[OF d] lm_accumulated_percentage
    using assms
    by (simp add: defaultThresholds_def triggeredBefore_def lm_accumulated_fields
        thresholds_order)
qed

lemma lm_track_default_frame:
  assumes "du_date (lm_dailyUsage s) = today"
  shows "du_date (lm_dailyUsage (snd (lm_track today (cost, tokens) s))) = today"
    and "du_totalCost (lm_dailyUsage (snd (lm_track today (cost, tokens) s)))
       = js_add (du_totalCost (lm_dailyUsage s)) cost"
  using assms by (simp_all add: lm_track_frame lm_accumulated_fields)

lemma lm_run_frame:
  assumes "du_date (lm_dailyUsage s) = today" and "lm_alertThresholds s = defaultThresholds"
  shows "du_date (lm_dailyUsage (snd (lm_run today calls s))) = today
       \<and> lm_alertThresholds (snd (lm_run today calls s)) = defaultThresholds
       \<and> lm_dailyBudget (snd (lm_run today calls s)) = lm_dailyBudget s"
  using assms
proof (induction calls arbitrary: s)
  case Nil
  then show ?case by simp
next
  case (Cons u calls)
  obtain cost tokens where u: "u = (cost, tokens)" by (cases u)
  let ?s' = "snd (lm_track today (cost, tokens) s)"
  have d: "du_date (lm_dailyUsage ?s') = today"
    using Cons.prems(1) by (rule lm_track_default_frame)
  have t: "lm_alertThresholds ?s' = defaultThresholds"
    using Cons.prems(2) by (simp add: lm_track_frame)
  have b: "lm_dailyBudget ?s' = lm_dailyBudget s" by (simp add: lm_track_frame)
  from Cons.IH[OF d t] show ?case by (simp add: u b case_prod_beta)
qed

lemma lm_run_count:
  assumes "du_date (lm_dailyUsage s) = today" and "lm_alertThresholds s = defaultThresholds"
  shows "countLevel WARNING (fst (lm_run today calls s))
       = (if d0_7 \<notin> lm_alertTriggered s
             \<and> list_ex (\<lambda>p. js_ge p d0_7)
                 (cumulativeFractions (lm_dailyBudget s) (du_totalCost (lm_dailyUsage s)) calls)
          then 1 else 0)
     \<and> countLevel CRITICAL (fst (lm_run today calls s))
       = (if d0_9 \<notin> lm_alertTriggered s
             \<and> list_ex (\<lambda>p. js_ge p d0_9)
                 (cumulativeFractions (lm_dailyBudget s) (du_totalCost (lm_dailyUsage s)) calls)
          then 1 else 0)
     \<and> isEmergencyMode (global_emergencyMode (snd (lm_run today calls s)))
       = (isEmergencyMode (global_emergencyMode s)
          \<or> (d0_9 \<notin> lm_alertTriggered s
              \<and> list_ex (\<lambda>p. js_ge p d0_9)
                  (cumulativeFractions (lm_dailyBudget s) (du_totalCost (lm_dailyUsage s)) calls)))"
  using assms
proof (induction calls arbitrary: s)
  case Nil
  then show ?case by (simp add: countLevel_Nil)
next
  case (Cons u calls)
  obtain cost tokens where u: "u = (cost, tokens)" by (cases u)
  let ?s' = "snd (lm_track today (cost, tokens) s)"
  let ?c = "js_add (du_totalCost (lm_dailyUsage s)) cost"
  let ?p = "js_div ?c (lm_dailyBudget s)"
  have d: "du_date (lm_dailyUsage ?s') = today"
    using Cons.prems(1) by (rule lm_track_default_frame)
  have t: "lm_alertThresholds ?s' = defaultThresholds"
    using Cons.prems(2) by (simp add: lm_track_frame)
  have b: "lm_dailyBudget ?s' = lm_dailyBudget s" by (simp add: lm_track_frame)
  have c: "du_totalCost (lm_dailyUsage ?s') = ?c"
    using Cons.prems(1) by (rule lm_track_default_frame)
  note IH = Cons.IH[OF d t, unfolded b c]
  note lv = lm_track_default_levels[OF Cons.prems, of cost tokens]
  note tr = lm_track_default_triggered[OF Cons.prems, of cost tokens]
  note em = lm_track_default_emergency[OF Cons.prems, of cost tokens]
  define P7 where "P7 \<longleftrightarrow> js_ge ?p d0_7"
  define P9 where "P9 \<longleftrightarrow> js_ge ?p d0_9"
  define F7 where "F7 \<longleftrightarrow> list_ex (\<lambda>p. js_ge p d0_7)
      (cumulativeFractions (lm_dailyBudget s) ?c calls)"
  define F9 where "F9 \<longleftrightarrow> list_ex (\<lambda>p. js_ge p d0_9)
      (cumulativeFractions (lm_dailyBudget s) ?c calls)"
  define T7 where "T7 \<longleftrightarrow> d0_7 \<in> lm_alertTriggered s"
  define T9 where "T9 \<longleftrightarrow> d0_9 \<in> lm_alertTriggered s"
  define E where "E \<longleftrightarrow> isEmergencyMode (global_emergencyMode s)"
  have fr7: "list_ex (\<lambda>p. js_ge p d0_7)
      (cumulativeFractions (lm_dailyBudget s) (du_totalCost (lm_dailyUsage s)) (u # calls))
      \<longleftrightarrow> P7 \<or> F7"
    unfolding P7_def F7_def u by (simp only: cumulativeFractions.simps list_ex_Cons_iff fst_conv)
  have fr9: "list_ex (\<lambda>p. js_ge p d0_9)
      (cumulativeFractions (lm_dailyBudget s) (du_totalCost (lm_dailyUsage s)) (u # calls))
      \<longleftrightarrow> P9 \<or> F9"
    unfolding P9_def F9_def u by (simp only: cumulativeFractions.simps list_ex_Cons_iff fst_conv)
  have lv': "map al_level (fst (lm_track today (cost, tokens) s))
      = (if P7 \<and> \<not> T7 then [WARNING] else []) @ (if P9 \<and> \<not> T9 then [CRITICAL] else [])"
    unfolding P7_def P9_def T7_def T9_def by (rule lv)
  have tr7: "d0_7 \<in> lm_alertTriggered ?s' \<longleftrightarrow> T7 \<or> P7"
    unfolding P7_def T7_def by (rule tr(1))
  have tr9: "d0_9 \<in> lm_alertTriggered ?s' \<longleftrightarrow> T9 \<or> P9"
    unfolding P9_def T9_def by (rule tr(2))
  have em': "isEmergencyMode (global_emergencyMode ?s') \<longleftrightarrow> E \<or> (P9 \<and> \<not> T9)"
    unfolding P9_def T9_def E_def by (rule em)
  have IH7: "countLevel WARNING (fst (lm_run today calls ?s'))
      = (if \<not> (T7 \<or> P7) \<and> F7 then 1 else 0)"
    unfolding tr7[symmetric] F7_def by (rule IH[THEN conjunct1])
  have IH9: "countLevel CRITICAL (fst (lm_run today calls ?s'))
      = (if \<not> (T9 \<or> P9) \<and> F9 then 1 else 0)"
    unfolding tr9[symmetric] F9_def by (rule IH[THEN conjunct2, THEN conjunct1])
  have IHe: "isEmergencyMode (global_emergencyMode (snd (lm_run today calls ?s')))
      \<longleftrightarrow> (E \<or> (P9 \<and> \<not> T9)) \<or> (\<not> (T9 \<or> P9) \<and> F9)"
    unfolding tr9[symmetric] em'[symmetric] F9_def by (rule IH[THEN conjunct2, THEN conjunct2])
  have w: "countLevel WARNING (fst (lm_run today (u # calls) s))
       = (if d0_7 \<notin> lm_alertTriggered s
             \<and> list_ex (\<lambda>p. js_ge p d0_7)
                 (cumulativeFractions (lm_dailyBudget s) (du_totalCost (lm_dailyUsage s)) (u # calls))
          then 1 else 0)"
    unfolding fr7 T7_def[symmetric]
    unfolding u lm_run_Cons countLevel_Cons lv' IH7
    by auto
  have cr: "countLevel CRITICAL (fst (lm_run today (u # calls) s))
       = (if d0_9 \<notin> lm_alertTriggered s
             \<and> list_ex (\<lambda>p. js_ge p d0_9)
                 (cumulativeFractions (lm_dailyBudget s) (du_totalCost (lm_dailyUsage s)) (u # calls))
          then 1 else 0)"
    unfolding fr9 T9_def[symmetric]
    unfolding u lm_run_Cons countLevel_Cons lv' IH9
    by auto
  have e: "isEmergencyMode (global_emergencyMode (snd (lm_run today (u # calls) s)))
       = (isEmergencyMode (global_emergencyMode s)
          \<or> (d0_9 \<notin> lm_alertTriggered s
              \<and> list_ex (\<lambda>p. js_ge p d0_9)
                  (cumulativeFractions (lm_dailyBudget s) (du_totalCost (lm_dailyUsage s)) (u # calls))))"
    unfolding fr9 T9_def[symmetric] E_def[symmetric]
    unfolding u lm_run_Cons IHe
    by auto
  from w cr e show ?case by (intro conjI)
qed

lemma cumulativeFractions_take:
  "cumulativeFractions budget spent (take k calls) = take k (cumulativeFractions budget spent calls)"
proof (induction calls arbitrary: spent k)
  case Nil
  then show ?case by simp
next
  case (Cons u calls)
  then show ?case by (cases k) simp_all
qed

lemma lm_track_rollover:
  assumes "du_date (lm_dailyUsage s) \<noteq> today"
  shows "lm_track today usage s = lm_track today usage (resetDailyUsage today s)"
  using assms
  by (simp add: lm_track_def lm_trackUsage_def resetDailyUsage_def Let_def)

lemma resetDailyUsage_fields:
  "du_date (lm_dailyUsage (resetDailyUsage today s)) = today"
  "du_totalCost (lm_dailyUsage (resetDailyUsage today s)) = Finite 0"
  "du_totalTokens (lm_dailyUsage (resetDailyUsage today s)) = Finite 0"
  "du_requests (lm_dailyUsage (resetDailyUsage today s)) = Finite 0"
  "lm_alertTriggered (resetDailyUsage today s) = {}"
  "\<not> isEmergencyMode (global_emergencyMode (resetDailyUsage today s))"
  "lm_alertThresholds (resetDailyUsage today s) = lm_alertThresholds s"
  "lm_dailyBudget (resetDailyUsage today s) = lm_dailyBudget s"
  by (simp_all add: resetDailyUsage_def isEmergencyMode_def split: option.splits)

text \<open>
  Claim C1, as amended. In \<open>LightweightMonitor\<close>, for every sequence of \<open>trackUsage\<close> calls
  on one date, starting with nothing fired and the emergency flag off: the WARNING alert
  fires exactly once if the budget fraction reaches 0.7 after some call, and never
  otherwise; the same for the CRITICAL alert and 0.9; after any number of calls the
  emergency flag is on exactly when 0.9 has been reached by then. The budget fraction is the
  quotient \<open>totalCost / dailyBudget\<close> that the monitor computes in double arithmetic from the
  cost it has added up, and 0.7 and 0.9 are the doubles of these literals. A call on
  another date first resets the counters of the day, the fired thresholds and the
  emergency flag, and then counts its own usage.
\<close>

theorem lightweight_monitor_alerts_once:
  assumes "du_date (lm_dailyUsage s) = today"
    and "lm_alertThresholds s = defaultThresholds"
    and "lm_alertTriggered s = {}"
    and "\<not> isEmergencyMode (global_emergencyMode s)"
  shows "countLevel WARNING (fst (lm_run today calls s))
       = (if list_ex (\<lambda>p. js_ge p d0_7)
               (cumulativeFractions (lm_dailyBudget s) (du_totalCost (lm_dailyUsage s)) calls)
          then 1 else 0)
     \<and> countLevel CRITICAL (fst (lm_run today calls s))
       = (if list_ex (\<lambda>p. js_ge p d0_9)
               (cumulativeFractions (lm_dailyBudget s) (du_totalCost (lm_dailyUsage s)) calls)
          then 1 else 0)
     \<and> (\<forall>k. isEmergencyMode (global_emergencyMode (snd (lm_run today (take k calls) s)))
            = list_ex (\<lambda>p. js_ge p d0_9)
                (take k (cumulativeFractions (lm_dailyBudget s) (du_totalCost (lm_dailyUsage s))
                   calls)))
     \<and> (today' \<noteq> today \<longrightarrow>
          lm_track today' (cost, tokens) (snd (lm_run today calls s))
            = lm_track today' (cost, tokens) (resetDailyUsage today' (snd (lm_run today calls s)))
          \<and> du_totalCost (lm_dailyUsage (resetDailyUsage today' (snd (lm_run today calls s))))
              = Finite 0
          \<and> du_totalTokens (lm_dailyUsage (resetDailyUsage today' (snd (lm_run today calls s))))
              = Finite 0
          \<and> du_requests (lm_dailyUsage (resetDailyUsage today' (snd (lm_run today calls s))))
              = Finite 0
          \<and> lm_alertTriggered (resetDailyUsage today' (snd (lm_run today calls s))) = {}
          \<and> \<not> isEmergencyMode
                (global_emergencyMode (resetDailyUsage today' (snd (lm_run today calls s))))
          \<and> du_totalCost
               (lm_dailyUsage (snd (lm_track today' (cost, tokens) (snd (lm_run today calls s)))))
             = js_add (Finite 0) cost
          \<and> isEmergencyMode
               (global_emergencyMode
                  (snd (lm_track today' (cost, tokens) (snd (lm_run today calls s)))))
             = js_ge (js_div (js_add (Finite 0) cost) (lm_dailyBudget s)) d0_9)"
proof (intro conjI allI impI)
  note c = lm_run_count[OF assms(1,2), of calls]
  show "countLevel WARNING (fst (lm_run today calls s))
       = (if list_ex (\<lambda>p. js_ge p d0_7)
               (cumulativeFractions (lm_dailyBudget s) (du_totalCost (lm_dailyUsage s)) calls)
          then 1 else 0)"
    using c[THEN conjunct1] assms(3) by simp
  show "countLevel CRITICAL (fst (lm_run today calls s))
       = (if list_ex (\<lambda>p. js_ge p d0_9)
               (cumulativeFractions (lm_dailyBudget s) (du_totalCost (lm_dailyUsage s)) calls)
          then 1 else 0)"
    using c[THEN conjunct2, THEN conjunct1] assms(3) by simp
next
  fix k
  note c = lm_run_count[OF assms(1,2), of "take k calls"]
  show "isEmergencyMode (global_emergencyMode (snd (lm_run today (take k calls) s)))
            = list_ex (\<lambda>p. js_ge p d0_9)
                (take k (cumulativeFractions (lm_dailyBudget s) (du_totalCost (lm_dailyUsage s))
                   calls))"
    using c[THEN conjunct2, THEN conjunct2] assms(3,4)
    by (simp add: cumulativeFractions_take)
next
  assume ne: "today' \<noteq> today"
  let ?e = "snd (lm_run today calls s)"
  note f = lm_run_frame[OF assms(1,2), of calls]
  have d: "du_date (lm_dailyUsage ?e) \<noteq> today'" using f ne by simp
  have th: "lm_alertThresholds ?e = defaultThresholds" using f by simp
  have b: "lm_dailyBudget ?e = lm_dailyBudget s" using f by simp
  show ro: "lm_track today' (cost, tokens) ?e
      = lm_track today' (cost, tokens) (resetDailyUsage today' ?e)"
    using d by (rule lm_track_rollover)
  show "du_totalCost (lm_dailyUsage (resetDailyUsage today' ?e)) = Finite 0"
    and "du_totalTokens (lm_dailyUsage (resetDailyUsage today' ?e)) = Finite 0"
    and "du_requests (lm_dailyUsage (resetDailyUsage today' ?e)) = Finite 0"
    and "lm_alertTriggered (resetDailyUsage today' ?e) = {}"
    and "\<not> isEmergencyMode (global_emergencyMode (resetDailyUsage today' ?e))"
    by (simp_all add: resetDailyUsage_fields)
  show "du_totalCost (lm_dailyUsage (snd (lm_track today' (cost, tokens) ?e)))
      = js_add (Finite 0) cost"
    using d by (simp add: lm_track_frame lm_accumulated_fields)
  have "isEmergencyMode
      (global_emergencyMode (snd (lm_track today' (cost, tokens) (resetDailyUsage today' ?e))))
      = (isEmergencyMode (global_emergencyMode (resetDailyUsage today' ?e))
        \<or> (js_ge (js_div (js_add (du_totalCost (lm_dailyUsage (resetDailyUsage today' ?e))) cost)
                     (lm_dailyBudget (resetDailyUsage today' ?e))) d0_9
            \<and> d0_9 \<notin> lm_alertTriggered (resetDailyUsage today' ?e)))"
    by (rule lm_track_default_emergency) (simp_all add: resetDailyUsage_fields th)
  then show "isEmergencyMode (global_emergencyMode (snd (lm_track today' (cost, tokens) ?e)))
      = js_ge (js_div (js_add (Finite 0) cost) (lm_dailyBudget s)) d0_9"
    unfolding ro[symmetric] by (simp add: resetDailyUsage_fields b)
qed

text \<open>
  A day that reaches 60, 70, 90 and 95 percent, and a first call on the next date.
\<close>

theorem lightweight_monitor_alerts_once_witness:
  "du_date (lm_dailyUsage freshMonitor) = day1
   \<and> lm_alertThresholds freshMonitor = defaultThresholds
   \<and> lm_alertTriggered freshMonitor = {}
   \<and> \<not> isEmergencyMode (global_emergencyMode freshMonitor)
   \<and> cumulativeFractions (lm_dailyBudget freshMonitor) (du_totalCost (lm_dailyUsage freshMonitor))
        exampleDay
       = [Finite (5404319552844595 / 9007199254740992), d0_7, d0_9,
          Finite (4278419646001971 / 4503599627370496)]
   \<and> countLevel WARNING (fst (lm_run day1 exampleDay freshMonitor)) = 1
   \<and> countLevel CRITICAL (fst (lm_run day1 exampleDay freshMonitor)) = 1
   \<and> \<not> isEmergencyMode (global_emergencyMode (snd (lm_run day1 (take 2 exampleDay) freshMonitor)))
   \<and> isEmergencyMode (global_emergencyMode (snd (lm_run day1 (take 3 exampleDay) freshMonitor)))
   \<and> day2 \<noteq> day1
   \<and> du_totalCost
        (lm_dailyUsage
           (snd (lm_track day2 (Finite 1, Finite 100) (snd (lm_run day1 exampleDay freshMonitor)))))
      = Finite 1
   \<and> \<not> isEmergencyMode
         (global_emergencyMode
            (snd (lm_track day2 (Finite 1, Finite 100)
                    (snd (lm_run day1 exampleDay freshMonitor)))))"
proof -
  have a1: "du_date (lm_dailyUsage freshMonitor) = day1"
    and a2: "lm_alertThresholds freshMonitor = defaultThresholds"
    and a3: "lm_alertTriggered freshMonitor = {}"
    and a4: "\<not> isEmergencyMode (global_emergencyMode freshMonitor)"
    and b: "lm_dailyBudget freshMonitor = Finite 5"
    and c: "du_totalCost (lm_dailyUsage freshMonitor) = Finite 0"
    by (simp_all add: freshMonitor_def lm_new_fields defaultThresholds_def isEmergencyMode_def)
  have fr: "cumulativeFractions (lm_dailyBudget freshMonitor)
      (du_totalCost (lm_dailyUsage freshMonitor)) exampleDay
      = [Finite (5404319552844595 / 9007199254740992), d0_7, d0_9,
         Finite (4278419646001971 / 4503599627370496)]"
    unfolding b c exampleDay_def
    by (simp only: cumulativeFractions.simps fst_conv sums_of_costs quotients_of_five)
  have ne: "day2 \<noteq> day1" by (simp add: day1_def day2_def)
  note t = lightweight_monitor_alerts_once[OF a1 a2 a3 a4, of exampleDay day2 "Finite 1"
      "Finite 100"]
  note tW = t[THEN conjunct1, unfolded fr]
  note tC = t[THEN conjunct2, THEN conjunct1, unfolded fr]
  note tE = t[THEN conjunct2, THEN conjunct2, THEN conjunct1, unfolded fr, rule_format]
  note tR = t[THEN conjunct2, THEN conjunct2, THEN conjunct2, rule_format, OF ne, unfolded b]
  have w: "countLevel WARNING (fst (lm_run day1 exampleDay freshMonitor)) = 1"
    using tW by (simp add: quotients_order thresholds_order)
  have cr: "countLevel CRITICAL (fst (lm_run day1 exampleDay freshMonitor)) = 1"
    using tC by (simp add: quotients_order thresholds_order)
  have e2: "\<not> isEmergencyMode
      (global_emergencyMode (snd (lm_run day1 (take 2 exampleDay) freshMonitor)))"
    using tE[of 2] by (simp add: quotients_order thresholds_order)
  have e3: "isEmergencyMode
      (global_emergencyMode (snd (lm_run day1 (take 3 exampleDay) freshMonitor)))"
    using tE[of 3] by (simp add: quotients_order thresholds_order)
  have "du_totalCost
        (lm_dailyUsage
           (snd (lm_track day2 (Finite 1, Finite 100) (snd (lm_run day1 exampleDay freshMonitor)))))
      = js_add (Finite 0) (Finite 1)"
    using tR by (elim conjE)
  then have n1: "du_totalCost
        (lm_dailyUsage
           (snd (lm_track day2 (Finite 1, Finite 100) (snd (lm_run day1 exampleDay freshMonitor)))))
      = Finite 1"
    by (simp only: sums_of_costs)
  have "isEmergencyMode
         (global_emergencyMode
            (snd (lm_track day2 (Finite 1, Finite 100)
                    (snd (lm_run day1 exampleDay freshMonitor)))))
       = js_ge (js_div (js_add (Finite 0) (Finite 1)) (Finite 5)) d0_9"
    using tR by (elim conjE)
  then have n2: "\<not> isEmergencyMode
         (global_emergencyMode
            (snd (lm_track day2 (Finite 1, Finite 100)
                    (snd (lm_run day1 exampleDay freshMonitor)))))"
    by (simp only: sums_of_costs quotients_of_five quotients_order simp_thms)
  from a1 a2 a3 a4 fr w cr e2 e3 ne n1 n2 show ?thesis by (intro conjI)
qed

end
